theory Spec2Isabelle
  imports Main
begin

section \<open>The API client (api.ts)\<close>

subsection \<open>Local storage, JSON bodies, requests\<close>

text \<open>
  A JavaScript string is a sequence of UTF-16 code units, here natural numbers; \<open>js\<close>
  is the string of an ASCII literal of the source. Property names, storage keys and
  paths are literals of the source and stay \<open>string\<close>s.
\<close>

type_synonym jsstring = "nat list"

definition js :: "string \<Rightarrow> jsstring" where
  "js s = map of_char s"

text \<open>
  \<open>localStorage\<close> is a map from keys to strings; \<open>getItem\<close> of a missing key is
  \<open>null\<close>, here \<open>None\<close>.
\<close>

type_synonym storage = "string \<rightharpoonup> jsstring"

definition getItem :: "storage \<Rightarrow> string \<Rightarrow> jsstring option" where
  "getItem ls k = ls k"

definition setItem :: "storage \<Rightarrow> string \<Rightarrow> jsstring \<Rightarrow> storage" where
  "setItem ls k v = ls(k \<mapsto> v)"

definition removeItem :: "storage \<Rightarrow> string \<Rightarrow> storage" where
  "removeItem ls k = ls(k := None)"

text \<open>
  The JSON bodies the client exchanges: \<open>null\<close>, a string, an object whose fields are
  strings (\<open>{access_token}\<close>, \<open>{reply}\<close>, \<open>{id, title, createdAt}\<close>,
  \<open>{user_message, bot_message, createdAt}\<close>) and arrays of these. A field that is
  missing reads as \<open>undefined\<close>, here \<open>None\<close>.
\<close>

datatype data = DNull | DStr jsstring | DObj "(string \<times> jsstring) list" | DArr "data list"

text \<open>Truthiness of a string-or-undefined value: \<open>undefined\<close>, \<open>null\<close> and \<open>""\<close> are falsy.\<close>

definition truthy :: "jsstring option \<Rightarrow> bool" where
  "truthy v = (case v of None \<Rightarrow> False | Some s \<Rightarrow> s \<noteq> [])"

datatype http_method = GET | POST | DELETE

text \<open>
  An axios request config: \<open>authorization\<close> is \<open>headers["Authorization"]\<close> and
  \<open>retry\<close> is the one-shot marker \<open>_retry\<close> (\<open>undefined\<close> reads as \<open>False\<close>).
\<close>

record request =
  meth :: http_method
  url :: string
  body :: data
  authorization :: "jsstring option"
  retry :: bool

record response =
  status :: nat
  payload :: data

text \<open>
  What the network gives for one request: an HTTP reply, or nothing (a network error).
  A rejected call carries \<open>error.config\<close> and \<open>error.response\<close>.
\<close>

datatype reply = Reply nat data | NetworkError

datatype axios_error = AxiosError request "response option"

type_synonym result = "axios_error + response"

fun error_status :: "axios_error \<Rightarrow> nat option" where
  "error_status (AxiosError cfg None) = None"
| "error_status (AxiosError cfg (Some r)) = Some (status r)"

fun error_config :: "axios_error \<Rightarrow> request" where
  "error_config (AxiosError cfg r) = cfg"

text \<open>
  The client's state: local storage, the default \<open>Authorization\<close> header of the axios
  instance, and the requests put on the wire so far, in order. The backend is a function
  of the number of requests sent before and of the request.
\<close>

record api_state =
  storage :: storage
  auth_header :: "jsstring option"
  calls :: "request list"

type_synonym network = "nat \<Rightarrow> request \<Rightarrow> reply"

definition bearer :: "jsstring \<Rightarrow> jsstring" where
  "bearer token = js ''Bearer '' @ token"

definition setAuthToken :: "jsstring option \<Rightarrow> api_state \<Rightarrow> api_state" where
  "setAuthToken token st =
     (if truthy token then st\<lparr>auth_header := Some (bearer (the token))\<rparr>
      else st\<lparr>auth_header := None\<rparr>)"

text \<open>
  The request as sent: a header of the config wins over the instance default. axios
  resolves a reply whose status is in 200..299 and rejects every other one.
\<close>

definition outgoing :: "request \<Rightarrow> api_state \<Rightarrow> request" where
  "outgoing cfg st =
     cfg\<lparr>authorization :=
       (case authorization cfg of Some h \<Rightarrow> Some h | None \<Rightarrow> auth_header st)\<rparr>"

definition dispatch :: "network \<Rightarrow> request \<Rightarrow> api_state \<Rightarrow> result \<times> api_state" where
  "dispatch net cfg st =
     (let sent = outgoing cfg st;
          st' = st\<lparr>calls := calls st @ [sent]\<rparr>
      in case net (length (calls st)) sent of
           NetworkError \<Rightarrow> (Inl (AxiosError sent None), st')
         | Reply code d \<Rightarrow>
             if 200 \<le> code \<and> code < 300
             then (Inr \<lparr>status = code, payload = d\<rparr>, st')
             else (Inl (AxiosError sent (Some \<lparr>status = code, payload = d\<rparr>)), st'))"

subsection \<open>refreshToken and the response interceptor\<close>

definition refresh_request :: "jsstring \<Rightarrow> request" where
  "refresh_request rt =
     \<lparr>meth = POST, url = ''/user/refresh'', body = DObj [(''refresh_token'', rt)],
      authorization = None, retry = False\<rparr>"

text \<open>
  \<open>refreshToken\<close> posts through the same axios instance, given here as \<open>call\<close>. Every
  failure inside its \<open>try\<close> block (a rejected call, destructuring a \<open>null\<close> body) ends
  in \<open>return null\<close>. A call that does not return makes \<open>refreshToken\<close> not return.
\<close>

definition refreshToken ::
  "(request \<Rightarrow> api_state \<Rightarrow> (result \<times> api_state) option) \<Rightarrow> api_state
     \<Rightarrow> (jsstring option \<times> api_state) option" where
  "refreshToken call st =
     (let refresh_token = getItem (storage st) ''refresh_token'' in
      if \<not> truthy refresh_token then Some (None, st)
      else
        (case call (refresh_request (the refresh_token)) st of
           None \<Rightarrow> None
         | Some (Inl err, st1) \<Rightarrow> Some (None, st1)
         | Some (Inr res, st1) \<Rightarrow>
             (case payload res of
                DObj obj \<Rightarrow>
                  (let newAccessToken = map_of obj ''access_token'' in
                   if truthy newAccessToken
                   then Some (newAccessToken,
                          setAuthToken newAccessToken
                            (st1\<lparr>storage :=
                               setItem (storage st1) ''access_token'' (the newAccessToken)\<rparr>))
                   else Some (None, st1))
              | DNull \<Rightarrow> Some (None, st1)
              | DStr s \<Rightarrow> Some (None, st1)
              | DArr xs \<Rightarrow> Some (None, st1))))"

text \<open>
  A call through the instance: the request is sent, and a rejection passes through the
  response interceptor. The interceptor's own calls (the refresh, the retry) go through
  the instance again, so the function is recursive; the first argument bounds the depth of
  nested calls, and \<open>None\<close> says that the call has not returned within that depth.
  The retried request is \<open>error.config\<close> with the marker and the new header set on it;
  axios keeps both when it merges the config for the second send.
\<close>

primrec api :: "nat \<Rightarrow> network \<Rightarrow> request \<Rightarrow> api_state \<Rightarrow> (result \<times> api_state) option" where
  "api 0 net cfg st = None"
| "api (Suc n) net cfg st =
     (case dispatch net cfg st of
        (Inr res, st1) \<Rightarrow> Some (Inr res, st1)
      | (Inl error, st1) \<Rightarrow>
          (let originalRequest = error_config error in
           if error_status error = Some 401 \<and> \<not> retry originalRequest then
             (let originalRequest = originalRequest\<lparr>retry := True\<rparr> in
              case refreshToken (api n net) st1 of
                None \<Rightarrow> None
              | Some (Some newAccessToken, st2) \<Rightarrow>
                  api n net (originalRequest\<lparr>authorization := Some (bearer newAccessToken)\<rparr>) st2
              | Some (None, st2) \<Rightarrow>
                  Some (Inl (AxiosError originalRequest
                               (case error of AxiosError c r \<Rightarrow> r)),
                        st2\<lparr>storage :=
                          removeItem (removeItem (storage st2) ''access_token'')
                            ''refresh_token''\<rparr>))
           else Some (Inl error, st1)))"

subsection \<open>Callers of the client: Login.tsx and the mount effect of Chat.tsx\<close>

definition get_request :: "string \<Rightarrow> request" where
  "get_request u = \<lparr>meth = GET, url = u, body = DNull, authorization = None, retry = False\<rparr>"


text \<open>
  White space, for \<open>\s\<close> in the login form's regular expression and for \<open>trim()\<close>:
  the code units ECMAScript counts as white space or line terminator (tab, line feed,
  vertical tab, form feed, carriage return, space, no-break space, U+1680, U+2000 to
  U+200A, U+2028, U+2029, U+202F, U+205F, U+3000 and U+FEFF).
\<close>

definition is_space :: "nat \<Rightarrow> bool" where
  "is_space c =
     (c \<in> set [0x09, 0x0A, 0x0B, 0x0C, 0x0D, 0x20, 0xA0, 0x1680, 0x2028, 0x2029, 0x202F,
                0x205F, 0x3000, 0xFEFF]
      \<or> (0x2000 \<le> c \<and> c \<le> 0x200A))"











subsection \<open>Example inputs\<close>

definition signed_in :: api_state where
  "signed_in =
     \<lparr>storage = [''access_token'' \<mapsto> js ''old'', ''refresh_token'' \<mapsto> js ''rt''],
      auth_header = Some (bearer (js ''old'')), calls = []\<rparr>"

definition no_refresh_token :: api_state where
  "no_refresh_token =
     \<lparr>storage = [''access_token'' \<mapsto> js ''old''], auth_header = Some (bearer (js ''old'')),
      calls = []\<rparr>"

definition server_error :: network where
  "server_error n r = Reply 500 DNull"

text \<open>The first request and the retried one are answered 401, the refresh is granted.\<close>

definition expired_then_refreshed :: network where
  "expired_then_refreshed n r =
     (if url r = ''/user/refresh'' then Reply 200 (DObj [(''access_token'', js ''new'')])
      else Reply 401 DNull)"

text \<open>Every request is answered 401, the refresh too.\<close>

definition always_401 :: network where
  "always_401 n r = Reply 401 DNull"

section \<open>The chat page (Chat.tsx)\<close>

subsection \<open>Messages and the flattening of history records\<close>

datatype sender = User | Bot

text \<open>
  A \<open>ChatMessage\<close>; the field \<open>from\<close> is \<open>sender\<close> here, \<open>text\<close> is \<open>msg_text\<close>
  (\<open>None\<close> is \<open>undefined\<close>), and a missing \<open>isTyping\<close> reads as \<open>False\<close>.
\<close>

record ChatMessage =
  msg_text :: "jsstring option"
  sender :: sender
  isTyping :: bool
  createdAt :: "jsstring option"

text \<open>
  The callback of \<open>flatMap\<close>: up to two messages per record, the user's first. Reading
  a property of \<open>null\<close> throws (\<open>None\<close>); a string or an array has no such property.
\<close>

fun item_msgs :: "data \<Rightarrow> ChatMessage list option" where
  "item_msgs DNull = None"
| "item_msgs (DStr s) = Some []"
| "item_msgs (DArr xs) = Some []"
| "item_msgs (DObj item) =
     Some ((if truthy (map_of item ''user_message'')
            then [\<lparr>msg_text = map_of item ''user_message'', sender = User, isTyping = False,
                   createdAt = map_of item ''createdAt''\<rparr>]
            else [])
         @ (if truthy (map_of item ''bot_message'')
            then [\<lparr>msg_text = map_of item ''bot_message'', sender = Bot, isTyping = False,
                   createdAt = map_of item ''createdAt''\<rparr>]
            else []))"

definition flatten :: "data list \<Rightarrow> ChatMessage list option" where
  "flatten items = map_option concat (those (map item_msgs items))"

subsection \<open>The page state\<close>

text \<open>
  What the page keeps in \<open>sessions\<close> and \<open>activeSessionId\<close>: the page compares list
  entries with \<open>===\<close> and passes them on as ids, so an entry is a JavaScript value, a
  string, an object or an array. An object or array has an identity (the number) besides
  its content; \<open>===\<close> on two such values is equality here. \<open>null\<close> is no entry: the
  page cannot render it (see \<open>crash\<close>).
\<close>

datatype sval = SStr jsstring | SObj nat "(string \<times> jsstring) list" | SArr nat "data list"

fun to_sval :: "nat \<Rightarrow> data \<Rightarrow> sval option" where
  "to_sval r (DStr s) = Some (SStr s)"
| "to_sval r (DObj obj) = Some (SObj r obj)"
| "to_sval r (DArr xs) = Some (SArr r xs)"
| "to_sval r DNull = None"

text \<open>\<open>s.id\<close> and \<open>s.title\<close> of an entry; a string or an array has neither.\<close>

fun field :: "sval \<Rightarrow> string \<Rightarrow> jsstring option" where
  "field (SStr s) k = None"
| "field (SObj r obj) k = map_of obj k"
| "field (SArr r xs) k = None"

fun active_truthy :: "sval option \<Rightarrow> bool" where
  "active_truthy None = False"
| "active_truthy (Some (SStr s)) = (s \<noteq> [])"
| "active_truthy (Some (SObj r obj)) = True"
| "active_truthy (Some (SArr r xs)) = True"

text \<open>
  A request in flight, with what its continuation has captured from the render in which
  it was issued: \<open>fetchChat\<close> the active id, \<open>deleteSession\<close> its argument, the session
  list and the active id.
\<close>

datatype request_op =
    PInit
  | is_PFetch: PFetch sval
  | is_PSend: PSend jsstring sval
  | PDelete sval "sval list" "sval option"
  | PCreate

record chat =
  messages :: "ChatMessage list"
  input :: jsstring
  sessions :: "sval list"
  activeSessionId :: "sval option"
  pending :: "request_op list"
  issued :: "request_op list"
  next_ref :: nat
  crashed :: bool

definition issue :: "request_op \<Rightarrow> chat \<Rightarrow> chat" where
  "issue p st = st\<lparr>pending := pending st @ [p], issued := issued st @ [p]\<rparr>"

text \<open>The page as mounted with a token in storage: \<open>initAuth\<close> has asked for the sessions.\<close>

definition mounted :: chat where
  "mounted =
     \<lparr>messages = [], input = [], sessions = [], activeSessionId = None,
      pending = [PInit], issued = [PInit], next_ref = 0, crashed = False\<rparr>"

text \<open>
  An error thrown while the page renders (a state updater that reads a property of
  \<open>null\<close>, an entry \<open>null\<close> whose \<open>title\<close> is read) is caught by nothing: React
  unmounts the page, which shows nothing from then on.
\<close>

definition crash :: "chat \<Rightarrow> chat" where
  "crash st =
     st\<lparr>messages := [], input := [], sessions := [], activeSessionId := None,
        crashed := True\<rparr>"

subsection \<open>Effects and handlers\<close>

text \<open>
  The effect on \<open>[activeSessionId]\<close>, run after a render in which the id has changed:
  nothing for a falsy id, else the messages are cleared and the history is requested.
\<close>

definition fetch_effect :: "chat \<Rightarrow> chat \<Rightarrow> chat" where
  "fetch_effect rendered st =
     (if activeSessionId st = activeSessionId rendered then st
      else if \<not> active_truthy (activeSessionId st) then st
      else issue (PFetch (the (activeSessionId st))) (st\<lparr>messages := []\<rparr>))"

fun set_field ::
  "string \<Rightarrow> jsstring \<Rightarrow> (string \<times> jsstring) list \<Rightarrow> (string \<times> jsstring) list" where
  "set_field k v [] = [(k, v)]"
| "set_field k v (p # ps) = (if fst p = k then (k, v) # ps else p # set_field k v ps)"

text \<open>
  \<open>prev.map((s) => s.id === activeSessionId ? { ...s, title: history[0].text } : s)\<close>;
  the object made for the entry at position \<open>i\<close> gets the identity \<open>r + i\<close>.
\<close>

definition rename :: "nat \<Rightarrow> sval \<Rightarrow> jsstring \<Rightarrow> sval list \<Rightarrow> sval list" where
  "rename r active t prev =
     map (\<lambda>(i, s).
            case s of
              SObj r0 obj \<Rightarrow>
                (if map_option SStr (map_of obj ''id'') = Some active
                 then SObj (r + i) (set_field ''title'' t obj) else s)
            | SStr x \<Rightarrow> s
            | SArr r0 xs \<Rightarrow> s)
         (enumerate 0 prev)"

text \<open>
  The continuation of \<open>fetchChat\<close>, with the active id it has captured. A \<open>null\<close>
  record throws inside the \<open>try\<close> block before anything is set.
\<close>

definition fetchChat_done :: "sval \<Rightarrow> result \<Rightarrow> chat \<Rightarrow> chat" where
  "fetchChat_done active r st =
     (case r of
        Inl err \<Rightarrow> st
      | Inr res \<Rightarrow>
          (case payload res of
             DArr items \<Rightarrow>
               (case flatten items of
                  None \<Rightarrow> st
                | Some history \<Rightarrow>
                    (let st1 = st\<lparr>messages := history\<rparr> in
                     if history \<noteq> [] \<and> sender (hd history) = User
                     then st1\<lparr>sessions :=
                                rename (next_ref st) active (the (msg_text (hd history)))
                                  (sessions st),
                              next_ref := next_ref st + length (sessions st)\<rparr>
                     else st1))
           | DNull \<Rightarrow> st
           | DStr s \<Rightarrow> st
           | DObj obj \<Rightarrow> st))"

text \<open>The click on a session entry.\<close>

definition select_session :: "sval \<Rightarrow> chat \<Rightarrow> chat" where
  "select_session s st =
     (if Some s \<noteq> activeSessionId st
      then st\<lparr>messages := [], activeSessionId := Some s\<rparr>
      else st)"

text \<open>\<open>trim()\<close> drops the white space at both ends; \<open>!input.trim()\<close> is \<open>blank\<close>.\<close>

definition trim :: "jsstring \<Rightarrow> jsstring" where
  "trim s = rev (dropWhile is_space (rev (dropWhile is_space s)))"

definition blank :: "jsstring \<Rightarrow> bool" where
  "blank s = (trim s = [])"

definition typing_placeholder :: ChatMessage where
  "typing_placeholder =
     \<lparr>msg_text = Some (js ''Typing...''), sender = Bot, isTyping = True, createdAt = None\<rparr>"

text \<open>\<open>sendMessage\<close> up to its \<open>await\<close>; \<open>now\<close> is \<open>new Date().toISOString()\<close>.\<close>

definition sendMessage :: "jsstring \<Rightarrow> chat \<Rightarrow> chat" where
  "sendMessage now st =
     (if blank (input st) \<or> \<not> active_truthy (activeSessionId st) then st
      else
        (let userMsg =
               \<lparr>msg_text = Some (input st), sender = User, isTyping = False,
                createdAt = Some now\<rparr>
         in issue (PSend (input st) (the (activeSessionId st)))
              (st\<lparr>messages := (messages st @ [userMsg]) @ [typing_placeholder],
                  input := []\<rparr>)))"

text \<open>
  \<open>sendMessage\<close> after the \<open>await\<close>. A rejected call ends in the \<open>catch\<close> branch.
  After a fulfilled call \<open>res.data.reply\<close> is read inside the state updater, which runs
  when the page renders, outside the \<open>try\<close> block: for a \<open>null\<close> body it throws there.
\<close>

definition sendMessage_done :: "result \<Rightarrow> jsstring \<Rightarrow> chat \<Rightarrow> chat" where
  "sendMessage_done r now st =
     (let replied = (\<lambda>reply.
            st\<lparr>messages := filter (\<lambda>m. \<not> isTyping m) (messages st) @
                  [\<lparr>msg_text = reply, sender = Bot, isTyping = False,
                    createdAt = Some now\<rparr>]\<rparr>)
      in case r of
           Inl err \<Rightarrow>
             st\<lparr>messages := filter (\<lambda>m. \<not> isTyping m) (messages st) @
                  [\<lparr>msg_text = Some (js ''Error sending message''), sender = Bot,
                    isTyping = False, createdAt = Some now\<rparr>]\<rparr>
         | Inr res \<Rightarrow>
             (case payload res of
                DNull \<Rightarrow> crash st
              | DObj obj \<Rightarrow> replied (map_of obj ''reply'')
              | DStr s \<Rightarrow> replied None
              | DArr xs \<Rightarrow> replied None))"

text \<open>
  \<open>deleteSession\<close>: the click (with the answer to \<open>window.confirm\<close>), and the
  continuation, which filters the current list but takes the fallback from the list it
  has captured.
\<close>

definition deleteSession :: "sval \<Rightarrow> bool \<Rightarrow> chat \<Rightarrow> chat" where
  "deleteSession sessionId confirmed st =
     (if \<not> confirmed then st
      else issue (PDelete sessionId (sessions st) (activeSessionId st)) st)"

definition deleteSession_done ::
  "sval \<Rightarrow> sval list \<Rightarrow> sval option \<Rightarrow> result \<Rightarrow> chat \<Rightarrow> chat" where
  "deleteSession_done sessionId sessions0 active0 r st =
     (case r of
        Inl err \<Rightarrow> st
      | Inr res \<Rightarrow>
          (let st1 = st\<lparr>sessions := filter (\<lambda>s. s \<noteq> sessionId) (sessions st)\<rparr> in
           if active0 = Some sessionId then
             (let remainingSessions = filter (\<lambda>s. s \<noteq> sessionId) sessions0 in
              if length remainingSessions > 0
              then st1\<lparr>activeSessionId := Some (hd remainingSessions)\<rparr>
              else st1\<lparr>activeSessionId := None, messages := []\<rparr>)
           else st1))"

text \<open>
  \<open>createNewSession\<close> and its continuation. The body becomes the first entry of the
  list and its \<open>id\<close> the active id (\<open>undefined\<close> for a string or an array). For a
  \<open>null\<close> body \<open>res.data.id\<close> throws into the \<open>catch\<close> branch after the entry has
  been queued, and the page cannot render the entry.
\<close>

definition createNewSession :: "chat \<Rightarrow> chat" where
  "createNewSession st = issue PCreate st"

definition createNewSession_done :: "result \<Rightarrow> chat \<Rightarrow> chat" where
  "createNewSession_done r st =
     (case r of
        Inl err \<Rightarrow> st
      | Inr res \<Rightarrow>
          (case to_sval (next_ref st) (payload res) of
             None \<Rightarrow> crash st
           | Some entry \<Rightarrow>
               st\<lparr>sessions := entry # sessions st,
                  activeSessionId := map_option SStr (field entry ''id''),
                  messages := [],
                  next_ref := Suc (next_ref st)\<rparr>))"

text \<open>
  The continuation of \<open>initAuth\<close> for the array it received: the entries as they are,
  and the first one as the active id. The page cannot render an entry \<open>null\<close>.
\<close>

definition initAuth_done :: "result \<Rightarrow> chat \<Rightarrow> chat" where
  "initAuth_done r st =
     (case r of
        Inl err \<Rightarrow> st
      | Inr res \<Rightarrow>
          (case payload res of
             DArr xs \<Rightarrow>
               (case those (map (\<lambda>(i, d). to_sval (next_ref st + i) d) (enumerate 0 xs)) of
                  None \<Rightarrow> crash st
                | Some entries \<Rightarrow>
                    (let st1 = st\<lparr>sessions := entries,
                                  next_ref := next_ref st + length xs\<rparr>
                     in if length entries > 0
                        then st1\<lparr>activeSessionId := Some (hd entries)\<rparr> else st1))
           | DNull \<Rightarrow> st
           | DStr s \<Rightarrow> st
           | DObj obj \<Rightarrow> st))"

subsection \<open>Events\<close>

text \<open>
  What can happen to the page: the user types, clicks the entry or the delete button at
  a position of the rendered list, sends, asks for a new session; and a request in
  flight (at a position of \<open>pending\<close>) completes, in any order. An event that names no
  entry or no request leaves the page as it is. After each event the page renders and
  the effect on the active id runs. Nothing happens to a page that has been unmounted.
\<close>

datatype event =
    SetInput jsstring
  | ClickSession nat
  | ClickDelete nat bool
  | ClickNew
  | Send jsstring
  | Resolve nat result jsstring

definition complete :: "request_op \<Rightarrow> result \<Rightarrow> jsstring \<Rightarrow> chat \<Rightarrow> chat" where
  "complete p r now st =
     (case p of
        PInit \<Rightarrow> initAuth_done r st
      | PFetch active \<Rightarrow> fetchChat_done active r st
      | PSend message active \<Rightarrow> sendMessage_done r now st
      | PDelete sessionId sessions0 active0 \<Rightarrow> deleteSession_done sessionId sessions0 active0 r st
      | PCreate \<Rightarrow> createNewSession_done r st)"

fun handle_event :: "event \<Rightarrow> chat \<Rightarrow> chat" where
  "handle_event (SetInput v) st = st\<lparr>input := v\<rparr>"
| "handle_event (ClickSession i) st =
     (if i < length (sessions st) then select_session (sessions st ! i) st else st)"
| "handle_event (ClickDelete i confirmed) st =
     (if i < length (sessions st) then deleteSession (sessions st ! i) confirmed st else st)"
| "handle_event ClickNew st = createNewSession st"
| "handle_event (Send now) st = sendMessage now st"
| "handle_event (Resolve k r now) st =
     (if k < length (pending st)
      then complete (pending st ! k) r now
             (st\<lparr>pending := take k (pending st) @ drop (Suc k) (pending st)\<rparr>)
      else st)"

definition step :: "event \<Rightarrow> chat \<Rightarrow> chat" where
  "step e st = (if crashed st then st else fetch_effect st (handle_event e st))"

definition run :: "event list \<Rightarrow> chat \<Rightarrow> chat" where
  "run es st = foldl (\<lambda>s e. step e s) st es"

subsection \<open>Example runs of the page\<close>

definition ok :: "data \<Rightarrow> result" where
  "ok d = Inr \<lparr>status = 200, payload = d\<rparr>"

definition history_A :: "data list" where
  "history_A =
     [DObj [(''user_message'', js ''question in A''), (''bot_message'', js ''answer in A''),
            (''createdAt'', js ''2024-01-01T10:00:00.000Z'')]]"

definition history_B :: "data list" where
  "history_B =
     [DObj [(''user_message'', js ''question in B''), (''bot_message'', js ''answer in B''),
            (''createdAt'', js ''2024-01-02T10:00:00.000Z'')]]"

text \<open>
  The sessions A, B, C are listed, A is active and its history is shown, and the user
  has typed a message.
\<close>

definition three_sessions :: chat where
  "three_sessions =
     run [Resolve 0 (ok (DArr [DStr (js ''A''), DStr (js ''B''), DStr (js ''C'')])) (js ''t0''),
          Resolve 0 (ok (DArr history_A)) (js ''t1''),
          SetInput (js ''hello'')]
       mounted"

text \<open>
  The user switches from A to B before the history of A has arrived; the history of B
  arrives first, the one of A after it.
\<close>

definition late_response :: "event list" where
  "late_response =
     [Resolve 0 (ok (DArr [DStr (js ''A''), DStr (js ''B'')])) (js ''t1''),
      ClickSession 1,
      Resolve 1 (ok (DArr history_B)) (js ''t2''),
      Resolve 0 (ok (DArr history_A)) (js ''t3'')]"

text \<open>Two messages are sent one after the other; the first one is answered.\<close>

definition two_sends :: "event list" where
  "two_sends =
     [Resolve 0 (ok (DArr [DStr (js ''A'')])) (js ''t0''),
      Resolve 0 (ok (DArr [])) (js ''t1''),
      SetInput (js ''one''), Send (js ''t2''),
      SetInput (js ''two''), Send (js ''t3''),
      Resolve 0 (ok (DObj [(''reply'', js ''answer one'')])) (js ''t4'')]"

text \<open>
  The sessions A and B are listed and A is active. The user asks for a new chat, which
  the backend creates as \<open>{id: "N"}\<close>, and then deletes it with the button of its
  entry; the backend confirms.
\<close>

definition new_chat_then_delete :: "event list" where
  "new_chat_then_delete =
     [Resolve 0 (ok (DArr [DStr (js ''A''), DStr (js ''B'')])) (js ''t0''),
      Resolve 0 (ok (DArr [])) (js ''t1''),
      ClickNew,
      Resolve 0 (ok (DObj [(''id'', js ''N''), (''createdAt'', js ''2024-01-03T10:00:00.000Z'')]))
        (js ''t2''),
      Resolve 0 (ok (DArr [])) (js ''t3''),
      ClickDelete 0 True,
      Resolve 0 (ok DNull) (js ''t4'')]"

text \<open>Three records whose \<open>createdAt\<close> are the third, the first and the second day.\<close>

definition unordered_history :: "data list" where
  "unordered_history =
     [DObj [(''user_message'', js ''third''), (''createdAt'', js ''2024-01-03T00:00:00.000Z'')],
      DObj [(''user_message'', js ''first''), (''createdAt'', js ''2024-01-01T00:00:00.000Z'')],
      DObj [(''user_message'', js ''second''), (''createdAt'', js ''2024-01-02T00:00:00.000Z'')]]"

section \<open>Properties of the API client\<close>

lemma js_eq_iff: "js a = js b \<longleftrightarrow> a = b"
  by (simp add: js_def inj_map_eq_map inj_of_char)

lemma js_eq_Nil: "js a = [] \<longleftrightarrow> a = []"
  by (simp add: js_def)

lemma js_append: "js (a @ b) = js a @ js b"
  by (simp add: js_def)

lemma bearer_js: "bearer (js t) = js (''Bearer '' @ t)"
  by (simp add: bearer_def js_def)

lemma dispatch_calls:
  "dispatch net cfg st = (r, st') \<Longrightarrow>
     st' = st\<lparr>calls := calls st @ [outgoing cfg st]\<rparr>"
  by (auto simp: dispatch_def Let_def split: reply.splits if_splits)

lemma dispatch_storage:
  "dispatch net cfg st = (r, st') \<Longrightarrow> storage st' = storage st \<and> auth_header st' = auth_header st"
  by (drule dispatch_calls) simp

lemma outgoing_with_header:
  "authorization cfg = Some h \<Longrightarrow> outgoing cfg st = cfg"
  by (simp add: outgoing_def)

lemma outgoing_calls:
  "outgoing cfg (st\<lparr>calls := cs\<rparr>) = outgoing cfg st"
  by (cases "authorization cfg") (simp_all add: outgoing_def)

lemma dispatch_fulfilled:
  "net (length (calls st)) (outgoing cfg st) = Reply code d \<Longrightarrow> 200 \<le> code \<Longrightarrow> code < 300 \<Longrightarrow>
   dispatch net cfg st =
     (Inr \<lparr>status = code, payload = d\<rparr>, st\<lparr>calls := calls st @ [outgoing cfg st]\<rparr>)"
  by (simp add: dispatch_def Let_def)

lemma dispatch_rejected:
  "net (length (calls st)) (outgoing cfg st) = Reply code d \<Longrightarrow>
   \<not> (200 \<le> code \<and> code < 300) \<Longrightarrow>
   dispatch net cfg st =
     (Inl (AxiosError (outgoing cfg st) (Some \<lparr>status = code, payload = d\<rparr>)),
      st\<lparr>calls := calls st @ [outgoing cfg st]\<rparr>)"
  by (simp add: dispatch_def Let_def)

text \<open>A request that carries the marker is sent once, whatever the answer.\<close>

lemma api_retried:
  "retry cfg \<Longrightarrow> api (Suc n) net cfg st = Some (dispatch net cfg st)"
  by (cases "dispatch net cfg st")
     (auto simp: Let_def dispatch_def outgoing_def split: sum.splits reply.splits if_splits)


lemma setAuthToken_calls: "calls (setAuthToken t st) = calls st"
  by (simp add: setAuthToken_def)


text \<open>
  When \<open>refreshToken\<close> returns \<open>null\<close> after a first 401, the interceptor removes both
  keys and rejects with the error of the request.
\<close>

lemma refresh_failure_clears_storage:
  assumes "dispatch net cfg st = (Inl e, st1)"
    and "error_status e = Some 401" and "\<not> retry cfg"
    and "refreshToken (api n net) st1 = Some (None, st2)"
  shows "\<exists>e' st'. api (Suc n) net cfg st = Some (Inl e', st')
           \<and> error_status e' = Some 401
           \<and> getItem (storage st') ''access_token'' = None
           \<and> getItem (storage st') ''refresh_token'' = None"
proof -
  have "retry (error_config e) = retry cfg"
    using assms(1)
    by (auto simp: dispatch_def Let_def outgoing_def split: reply.splits if_splits)
  then show ?thesis
    using assms
    by (cases e rule: error_status.cases) (auto simp: Let_def getItem_def removeItem_def)
qed

text \<open>
  C7. A request whose outcome is a network error or an HTTP error other than 401 is
  rejected with exactly the error of the one request sent: one request is on the wire,
  storage and default header are untouched, nothing is refreshed or retried. Whenever a
  call through the client is not just the one request sent, that request was answered
  401 and had no retry marker.
\<close>

theorem non_401_errors_propagate:
  assumes "dispatch net cfg st = (Inl e, st')"
    and "error_status e \<noteq> Some 401"
  shows "api (Suc n) net cfg st = Some (Inl e, st')
       \<and> st' = st\<lparr>calls := calls st @ [outgoing cfg st]\<rparr>
       \<and> (\<forall>net2 cfg2 st2. api (Suc n) net2 cfg2 st2 \<noteq> Some (dispatch net2 cfg2 st2) \<longrightarrow>
             (\<exists>e2 st3. dispatch net2 cfg2 st2 = (Inl e2, st3)
                \<and> error_status e2 = Some 401 \<and> \<not> retry cfg2))"
proof -
  have a: "api (Suc n) net cfg st = Some (Inl e, st')"
    using assms by (simp add: Let_def)
  have b: "st' = st\<lparr>calls := calls st @ [outgoing cfg st]\<rparr>"
    using assms(1) by (rule dispatch_calls)
  have c: "\<exists>e2 st3. dispatch net2 cfg2 st2 = (Inl e2, st3)
                \<and> error_status e2 = Some 401 \<and> \<not> retry cfg2"
    if "api (Suc n) net2 cfg2 st2 \<noteq> Some (dispatch net2 cfg2 st2)" for net2 cfg2 st2
  proof (cases "dispatch net2 cfg2 st2")
    case (Pair r s)
    show ?thesis
    proof (cases r)
      case (Inl e2)
      have cfg: "error_config e2 = outgoing cfg2 st2"
        using Pair Inl
        by (auto simp: dispatch_def Let_def split: reply.splits if_splits)
      have "error_status e2 = Some 401 \<and> \<not> retry (error_config e2)"
        using that Pair Inl by (auto simp: Let_def split: if_splits)
      then show ?thesis using Pair Inl cfg by (simp add: outgoing_def)
    next
      case (Inr res)
      then show ?thesis using that Pair by simp
    qed
  qed
  from a b c show ?thesis by blast
qed

theorem non_401_errors_propagate_witness:
  "dispatch server_error (get_request ''/chat/history'') signed_in =
     (Inl (AxiosError ((get_request ''/chat/history'')\<lparr>authorization := Some (bearer (js ''old''))\<rparr>)
             (Some \<lparr>status = 500, payload = DNull\<rparr>)),
      signed_in\<lparr>calls :=
        [(get_request ''/chat/history'')\<lparr>authorization := Some (bearer (js ''old''))\<rparr>]\<rparr>)
   \<and> error_status (AxiosError
         ((get_request ''/chat/history'')\<lparr>authorization := Some (bearer (js ''old''))\<rparr>)
         (Some \<lparr>status = 500, payload = DNull\<rparr>)) \<noteq> Some 401
   \<and> api (Suc 0) server_error (get_request ''/chat/history'') signed_in =
       Some (Inl (AxiosError
                   ((get_request ''/chat/history'')\<lparr>authorization := Some (bearer (js ''old''))\<rparr>)
                   (Some \<lparr>status = 500, payload = DNull\<rparr>)),
             signed_in\<lparr>calls :=
               [(get_request ''/chat/history'')\<lparr>authorization := Some (bearer (js ''old''))\<rparr>]\<rparr>)
   \<and> api (Suc 0) always_401 (get_request ''/chat/history'') no_refresh_token \<noteq>
       Some (dispatch always_401 (get_request ''/chat/history'') no_refresh_token)
   \<and> (\<exists>e2 st3. dispatch always_401 (get_request ''/chat/history'') no_refresh_token = (Inl e2, st3)
          \<and> error_status e2 = Some 401)"
proof -
  have d: "dispatch server_error (get_request ''/chat/history'') signed_in =
     (Inl (AxiosError ((get_request ''/chat/history'')\<lparr>authorization := Some (bearer (js ''old''))\<rparr>)
             (Some \<lparr>status = 500, payload = DNull\<rparr>)),
      signed_in\<lparr>calls :=
        [(get_request ''/chat/history'')\<lparr>authorization := Some (bearer (js ''old''))\<rparr>]\<rparr>)"
    by (simp add: dispatch_def Let_def server_error_def outgoing_def get_request_def
          signed_in_def)
  have s: "error_status (AxiosError
         ((get_request ''/chat/history'')\<lparr>authorization := Some (bearer (js ''old''))\<rparr>)
         (Some \<lparr>status = 500, payload = DNull\<rparr>)) \<noteq> Some 401"
    by simp
  have r: "api (Suc 0) always_401 (get_request ''/chat/history'') no_refresh_token \<noteq>
       Some (dispatch always_401 (get_request ''/chat/history'') no_refresh_token)"
    by (simp add: dispatch_def Let_def always_401_def outgoing_def get_request_def
          no_refresh_token_def refreshToken_def getItem_def truthy_def)
  note t = non_401_errors_propagate [OF d s, of 0]
  from t r have "\<exists>e2 st3.
      dispatch always_401 (get_request ''/chat/history'') no_refresh_token = (Inl e2, st3)
      \<and> error_status e2 = Some 401"
    by blast
  with t d s r show ?thesis by blast
qed

text \<open>
  C1. A request without the marker is answered 401, a refresh token is stored, and the
  refresh call is granted a token. Then the client stores the token under
  \<open>access_token\<close>, makes \<open>Bearer\<close>, a space and the token the default header, and
  sends the original request once more, with that header and the marker. What the caller
  gets is the outcome of that one retried request, also when it is a second 401. Three
  requests have been sent: the original, one refresh, one retry.
\<close>

theorem refresh_and_retry_once:
  assumes fresh: "\<not> retry cfg"
    and first: "net (length (calls st)) (outgoing cfg st) = Reply 401 d"
    and rt: "getItem (storage st) ''refresh_token'' = Some rt" "rt \<noteq> []"
    and granted:
      "net (Suc (length (calls st))) (outgoing (refresh_request rt) st) = Reply code (DObj obj)"
      "200 \<le> code" "code < 300"
    and tok: "map_of obj ''access_token'' = Some tok" "tok \<noteq> []"
  shows "api (Suc (Suc n)) net cfg st =
           Some (fst (dispatch net
                       ((outgoing cfg st)\<lparr>retry := True, authorization := Some (js ''Bearer '' @ tok)\<rparr>)
                       (st\<lparr>storage := setItem (storage st) ''access_token'' tok,
                           auth_header := Some (js ''Bearer '' @ tok),
                           calls := calls st @
                             [outgoing cfg st, outgoing (refresh_request rt) st]\<rparr>)),
                 st\<lparr>storage := setItem (storage st) ''access_token'' tok,
                     auth_header := Some (js ''Bearer '' @ tok),
                     calls := calls st @
                       [outgoing cfg st, outgoing (refresh_request rt) st,
                        (outgoing cfg st)\<lparr>retry := True,
                          authorization := Some (js ''Bearer '' @ tok)\<rparr>]\<rparr>)"
proof -
  let ?st1 = "st\<lparr>calls := calls st @ [outgoing cfg st]\<rparr>"
  let ?err = "AxiosError (outgoing cfg st) (Some \<lparr>status = 401, payload = d\<rparr>)"
  have d1: "dispatch net cfg st = (Inl ?err, ?st1)"
    using first by (simp add: dispatch_rejected)
  have og: "outgoing (refresh_request rt) ?st1 = outgoing (refresh_request rt) st"
    by (rule outgoing_calls)
  let ?st1' = "?st1\<lparr>calls := calls ?st1 @ [outgoing (refresh_request rt) ?st1]\<rparr>"
  have d2: "dispatch net (refresh_request rt) ?st1 =
              (Inr \<lparr>status = code, payload = DObj obj\<rparr>, ?st1')"
    using granted by (intro dispatch_fulfilled) (simp_all add: og)
  have call: "api (Suc n) net (refresh_request rt) ?st1 =
                Some (Inr \<lparr>status = code, payload = DObj obj\<rparr>, ?st1')"
    using d2 by simp
  let ?st2 = "st\<lparr>storage := setItem (storage st) ''access_token'' tok,
                 auth_header := Some (js ''Bearer '' @ tok),
                 calls := calls st @ [outgoing cfg st, outgoing (refresh_request rt) st]\<rparr>"
  have rf: "refreshToken (api (Suc n) net) ?st1 = Some (Some tok, ?st2)"
    using rt tok call
    by (simp add: refreshToken_def getItem_def truthy_def Let_def setAuthToken_def og
          bearer_def)
  let ?retried = "(outgoing cfg st)\<lparr>retry := True, authorization := Some (js ''Bearer '' @ tok)\<rparr>"
  have "api (Suc (Suc n)) net cfg st = api (Suc n) net ?retried ?st2"
    using d1 fresh rf
    by (simp add: Let_def outgoing_def bearer_def del: api.simps(2)
          add: api.simps(2)[of "Suc n"])
  also have "\<dots> = Some (dispatch net ?retried ?st2)"
    by (rule api_retried) simp
  finally have a: "api (Suc (Suc n)) net cfg st = Some (dispatch net ?retried ?st2)" .
  have "snd (dispatch net ?retried ?st2) = ?st2\<lparr>calls := calls ?st2 @ [outgoing ?retried ?st2]\<rparr>"
    using dispatch_calls [of net ?retried ?st2] by (cases "dispatch net ?retried ?st2") simp
  moreover have "outgoing ?retried ?st2 = ?retried"
    by (rule outgoing_with_header) simp
  ultimately have "snd (dispatch net ?retried ?st2) =
      st\<lparr>storage := setItem (storage st) ''access_token'' tok,
          auth_header := Some (js ''Bearer '' @ tok),
          calls := calls st @ [outgoing cfg st, outgoing (refresh_request rt) st, ?retried]\<rparr>"
    by simp
  with a show ?thesis
    by (cases "dispatch net ?retried ?st2") simp
qed

theorem refresh_and_retry_once_witness:
  "\<not> retry (get_request ''/chat/history'')
   \<and> expired_then_refreshed (length (calls signed_in))
         (outgoing (get_request ''/chat/history'') signed_in) = Reply 401 DNull
   \<and> getItem (storage signed_in) ''refresh_token'' = Some (js ''rt'')
   \<and> expired_then_refreshed (Suc (length (calls signed_in)))
         (outgoing (refresh_request (js ''rt'')) signed_in)
       = Reply 200 (DObj [(''access_token'', js ''new'')])
   \<and> api (Suc (Suc 0)) expired_then_refreshed (get_request ''/chat/history'') signed_in =
       Some (Inl (AxiosError
                   \<lparr>meth = GET, url = ''/chat/history'', body = DNull,
                    authorization = Some (js ''Bearer new''), retry = True\<rparr>
                   (Some \<lparr>status = 401, payload = DNull\<rparr>)),
             \<lparr>storage = [''access_token'' \<mapsto> js ''new'', ''refresh_token'' \<mapsto> js ''rt''],
              auth_header = Some (js ''Bearer new''),
              calls =
                [\<lparr>meth = GET, url = ''/chat/history'', body = DNull,
                  authorization = Some (js ''Bearer old''), retry = False\<rparr>,
                 \<lparr>meth = POST, url = ''/user/refresh'',
                  body = DObj [(''refresh_token'', js ''rt'')],
                  authorization = Some (js ''Bearer old''), retry = False\<rparr>,
                 \<lparr>meth = GET, url = ''/chat/history'', body = DNull,
                  authorization = Some (js ''Bearer new''), retry = True\<rparr>]\<rparr>)"
proof -
  have h1: "\<not> retry (get_request ''/chat/history'')"
    by (simp add: get_request_def)
  have h2: "expired_then_refreshed (length (calls signed_in))
         (outgoing (get_request ''/chat/history'') signed_in) = Reply 401 DNull"
    by (simp add: expired_then_refreshed_def outgoing_def get_request_def)
  have h3: "getItem (storage signed_in) ''refresh_token'' = Some (js ''rt'')"
    by (simp add: getItem_def signed_in_def)
  have h4: "expired_then_refreshed (Suc (length (calls signed_in)))
         (outgoing (refresh_request (js ''rt'')) signed_in)
       = Reply 200 (DObj [(''access_token'', js ''new'')])"
    by (simp add: expired_then_refreshed_def outgoing_def refresh_request_def)
  have h5: "map_of [(''access_token'', js ''new'')] ''access_token'' = Some (js ''new'')"
    by simp
  have p: "js ''rt'' \<noteq> []" "(200::nat) \<le> 200" "(200::nat) < 300" "js ''new'' \<noteq> []"
    by (simp_all add: js_eq_Nil)
  note t = refresh_and_retry_once [OF h1 h2 h3 p(1) h4 p(2) p(3) h5 p(4), of 0]
  have "api (Suc (Suc 0)) expired_then_refreshed (get_request ''/chat/history'') signed_in =
       Some (Inl (AxiosError
                   \<lparr>meth = GET, url = ''/chat/history'', body = DNull,
                    authorization = Some (js ''Bearer new''), retry = True\<rparr>
                   (Some \<lparr>status = 401, payload = DNull\<rparr>)),
             \<lparr>storage = [''access_token'' \<mapsto> js ''new'', ''refresh_token'' \<mapsto> js ''rt''],
              auth_header = Some (js ''Bearer new''),
              calls =
                [\<lparr>meth = GET, url = ''/chat/history'', body = DNull,
                  authorization = Some (js ''Bearer old''), retry = False\<rparr>,
                 \<lparr>meth = POST, url = ''/user/refresh'',
                  body = DObj [(''refresh_token'', js ''rt'')],
                  authorization = Some (js ''Bearer old''), retry = False\<rparr>,
                 \<lparr>meth = GET, url = ''/chat/history'', body = DNull,
                  authorization = Some (js ''Bearer new''), retry = True\<rparr>]\<rparr>)"
    by (subst t)
       (simp add: dispatch_def Let_def expired_then_refreshed_def outgoing_def
          get_request_def refresh_request_def signed_in_def setItem_def fun_upd_twist
          bearer_js js_append [symmetric])
  with h1 h2 h3 h4 show ?thesis by blast
qed

subsection \<open>Calls that do not return\<close>

text \<open>
  More depth never changes the outcome of a call that has returned: \<open>None\<close> at every
  depth says that the call does not return.
\<close>

lemma refreshToken_mono:
  assumes "\<And>cfg st r. call cfg st = Some r \<Longrightarrow> call' cfg st = Some r"
    and "refreshToken call st = Some r"
  shows "refreshToken call' st = Some r"
proof (cases "truthy (getItem (storage st) ''refresh_token'')")
  case False
  then show ?thesis using assms(2) by (simp add: refreshToken_def)
next
  case True
  then obtain q where q: "call (refresh_request (the (getItem (storage st) ''refresh_token''))) st = Some q"
    using assms(2) by (auto simp: refreshToken_def Let_def split: option.splits)
  then have "call' (refresh_request (the (getItem (storage st) ''refresh_token''))) st = Some q"
    by (rule assms(1))
  then show ?thesis using assms(2) True q by (simp add: refreshToken_def Let_def)
qed

lemma api_mono:
  "api n net cfg st = Some r \<Longrightarrow> api (Suc n) net cfg st = Some r"
proof (induction n arbitrary: cfg st r)
  case 0
  then show ?case by simp
next
  case (Suc n)
  have rf: "refreshToken (api n net) s = Some q \<Longrightarrow> refreshToken (api (Suc n) net) s = Some q"
    for s q
    using Suc.IH by (rule refreshToken_mono)
  obtain o1 st1 where d: "dispatch net cfg st = (o1, st1)"
    by (cases "dispatch net cfg st")
  show ?case
  proof (cases o1)
    case (Inr res)
    then have "r = (Inr res, st1)" using Suc.prems d by simp
    then show ?thesis using d Inr by simp
  next
    case (Inl e)
    show ?thesis
    proof (cases "error_status e = Some 401 \<and> \<not> retry (error_config e)")
      case False
      then have "r = (Inl e, st1)" using Suc.prems d Inl by (auto simp: Let_def)
      then show ?thesis using False d Inl by (auto simp: Let_def)
    next
      case True
      from Suc.prems d Inl True obtain q where
        q: "refreshToken (api n net) st1 = Some q"
        by (auto simp: Let_def split: option.splits)
      note q' = rf [OF q]
      show ?thesis
      proof (cases q)
        case (Pair t st2)
        show ?thesis
        proof (cases t)
          case None
          then have "r = (Inl (AxiosError ((error_config e)\<lparr>retry := True\<rparr>)
                               (case e of AxiosError c r \<Rightarrow> r)),
                        st2\<lparr>storage :=
                          removeItem (removeItem (storage st2) ''access_token'')
                            ''refresh_token''\<rparr>)"
            using Suc.prems d Inl True q Pair by (simp add: Let_def)
          then show ?thesis
            using d Inl True q' Pair None
            by (simp add: Let_def del: api.simps(2) add: api.simps(2) [of "Suc n"])
        next
          case (Some tok)
          have "api n net ((error_config e)\<lparr>retry := True, authorization := Some (bearer tok)\<rparr>) st2 = Some r"
            using Suc.prems d Inl True q Pair Some
            by (simp add: Let_def)
          then have "api (Suc n) net ((error_config e)\<lparr>retry := True, authorization := Some (bearer tok)\<rparr>) st2 = Some r"
            by (rule Suc.IH)
          then show ?thesis
            using d Inl True q' Pair Some
            by (simp add: Let_def del: api.simps(2) add: api.simps(2) [of "Suc n"])
        qed
      qed
    qed
  qed
qed

lemma always_401_never_returns:
  "truthy (getItem (storage st) ''refresh_token'') \<Longrightarrow> \<not> retry cfg \<Longrightarrow>
     api n always_401 cfg st = None"
proof (induction n arbitrary: cfg st)
  case 0
  show ?case by simp
next
  case (Suc n)
  let ?st1 = "st\<lparr>calls := calls st @ [outgoing cfg st]\<rparr>"
  have d: "dispatch always_401 cfg st =
             (Inl (AxiosError (outgoing cfg st) (Some \<lparr>status = 401, payload = DNull\<rparr>)), ?st1)"
    by (rule dispatch_rejected) (simp_all add: always_401_def)
  have "truthy (getItem (storage ?st1) ''refresh_token'')"
    using Suc.prems(1) by simp
  moreover have "\<not> retry (refresh_request rt)" for rt
    by (simp add: refresh_request_def)
  ultimately have "api n always_401 (refresh_request rt) ?st1 = None" for rt
    using Suc.IH by blast
  then have "refreshToken (api n always_401) ?st1 = None"
    using Suc.prems(1) by (simp add: refreshToken_def Let_def)
  then show ?case
    using d Suc.prems(2) by (simp add: Let_def outgoing_def)
qed

text \<open>
  C6, at the input where it fails. The refresh token is stored and the backend answers
  every request 401, the refresh call too. The rejected refresh call passes through the
  same interceptor, which calls \<open>refreshToken\<close> again: at no depth does the call
  return, so the two keys are never removed and the caller is never told.
\<close>

theorem refresh_answered_401_never_clears:
  "api n always_401 (get_request ''/chat/history'') signed_in = None"
  by (rule always_401_never_returns)
     (simp_all add: signed_in_def getItem_def truthy_def get_request_def js_eq_Nil)

subsection \<open>Runs that start without a refresh token\<close>








section \<open>Properties of the chat page\<close>

subsection \<open>Evaluation of runs\<close>

lemma run_Cons: "run (e # es) st = run es (step e st)"
  by (simp add: run_def)

lemma run_Nil: "run [] st = st"
  by (simp add: run_def)

lemma run_append: "run (es @ fs) st = run fs (run es st)"
  by (simp add: run_def)

text \<open>An input is blank when all of it is white space.\<close>

lemma blank_iff: "blank s \<longleftrightarrow> list_all is_space s"
proof -
  have "dropWhile is_space s = [] \<longleftrightarrow> list_all is_space s"
    by (simp only: dropWhile_eq_Nil_conv list_all_iff)
  moreover have "trim s = [] \<longleftrightarrow> dropWhile is_space s = []"
  proof
    assume "trim s = []"
    then have "dropWhile is_space (rev (dropWhile is_space s)) = []"
      by (simp add: trim_def)
    then have a: "list_all is_space (rev (dropWhile is_space s))"
      by (simp only: dropWhile_eq_Nil_conv list_all_iff)
    show "dropWhile is_space s = []"
    proof (cases "dropWhile is_space s")
      case Nil
      then show ?thesis .
    next
      case (Cons c cs)
      then have "\<not> is_space c" by (metis hd_dropWhile list.sel(1) list.simps(3))
      moreover have "is_space c" using a Cons by (simp add: list_all_iff)
      ultimately show ?thesis by simp
    qed
  next
    assume e: "dropWhile is_space s = []"
    show "trim s = []" unfolding trim_def e by simp
  qed
  ultimately show ?thesis unfolding blank_def by blast
qed

lemmas chat_eval =
  run_Cons run_Nil step_def complete_def fetch_effect_def issue_def Let_def
  initAuth_done_def fetchChat_done_def sendMessage_def sendMessage_done_def
  createNewSession_def createNewSession_done_def deleteSession_def deleteSession_done_def
  select_session_def flatten_def truthy_def ok_def enumerate_eq_zip blank_iff is_space_def
  rename_def typing_placeholder_def js_def

lemma three_sessions_eq:
  "three_sessions =
     \<lparr>messages =
        [\<lparr>msg_text = Some (js ''question in A''), sender = User, isTyping = False,
          createdAt = Some (js ''2024-01-01T10:00:00.000Z'')\<rparr>,
         \<lparr>msg_text = Some (js ''answer in A''), sender = Bot, isTyping = False,
          createdAt = Some (js ''2024-01-01T10:00:00.000Z'')\<rparr>],
      input = js ''hello'',
      sessions = [SStr (js ''A''), SStr (js ''B''), SStr (js ''C'')],
      activeSessionId = Some (SStr (js ''A'')),
      pending = [],
      issued = [PInit, PFetch (SStr (js ''A''))],
      next_ref = 6,
      crashed = False\<rparr>"
  by (simp add: three_sessions_def mounted_def history_A_def chat_eval)

lemma fetch_effect_same:
  "activeSessionId st' = activeSessionId st \<Longrightarrow> fetch_effect st st' = st'"
  by (simp add: fetch_effect_def)

lemma step_alive:
  "\<not> crashed st \<Longrightarrow> step e st = fetch_effect st (handle_event e st)"
  by (simp add: step_def)

lemma step_crashed: "crashed st \<Longrightarrow> step e st = st"
  by (simp add: step_def)

subsection \<open>Sending\<close>

text \<open>
  C10. With an input that is empty or all white space (any white space \<open>trim()\<close>
  removes), or with no active session, \<open>sendMessage\<close> returns the state it was given:
  messages, input, session list and the requests issued and in flight are the same.
\<close>

theorem send_guard:
  assumes "list_all is_space (input st) \<or> activeSessionId st = None"
  shows "sendMessage now st = st \<and> step (Send now) st = st
       \<and> issued (step (Send now) st) = issued st"
  using assms by (auto simp: sendMessage_def step_def fetch_effect_def blank_iff)

theorem send_guard_witness:
  "list_all is_space (input (three_sessions\<lparr>input := [0x20, 0xA0, 0x3000, 0xFEFF, 0x2003]\<rparr>))
   \<and> step (Send (js ''t'')) (three_sessions\<lparr>input := [0x20, 0xA0, 0x3000, 0xFEFF, 0x2003]\<rparr>)
       = three_sessions\<lparr>input := [0x20, 0xA0, 0x3000, 0xFEFF, 0x2003]\<rparr>
   \<and> list_all is_space (input (three_sessions\<lparr>input := []\<rparr>))
   \<and> step (Send (js ''t'')) (three_sessions\<lparr>input := []\<rparr>) = three_sessions\<lparr>input := []\<rparr>
   \<and> activeSessionId (mounted\<lparr>input := js ''hello''\<rparr>) = None
   \<and> step (Send (js ''t'')) (mounted\<lparr>input := js ''hello''\<rparr>) = mounted\<lparr>input := js ''hello''\<rparr>"
proof -
  have a: "list_all is_space (input (three_sessions\<lparr>input := [0x20, 0xA0, 0x3000, 0xFEFF, 0x2003]\<rparr>))"
    by (simp add: is_space_def)
  have a': "list_all is_space (input (three_sessions\<lparr>input := []\<rparr>))"
    by simp
  have b: "activeSessionId (mounted\<lparr>input := js ''hello''\<rparr>) = None"
    by (simp add: mounted_def)
  from send_guard [of "three_sessions\<lparr>input := [0x20, 0xA0, 0x3000, 0xFEFF, 0x2003]\<rparr>" "js ''t''"] a
    send_guard [of "three_sessions\<lparr>input := []\<rparr>" "js ''t''"] a'
    send_guard [of "mounted\<lparr>input := js ''hello''\<rparr>" "js ''t''"] b
  show ?thesis by simp
qed

lemma step_Send:
  assumes "\<not> crashed st" and "\<not> list_all is_space (input st)"
    and "active_truthy (activeSessionId st)"
  shows "step (Send now) st =
           st\<lparr>messages := messages st @
                 [\<lparr>msg_text = Some (input st), sender = User, isTyping = False,
                   createdAt = Some now\<rparr>, typing_placeholder],
               input := [],
               pending := pending st @ [PSend (input st) (the (activeSessionId st))],
               issued := issued st @ [PSend (input st) (the (activeSessionId st))]\<rparr>"
  using assms
  by (simp add: step_def sendMessage_def Let_def issue_def fetch_effect_def blank_iff)

lemma sendMessage_done_active:
  "activeSessionId (sendMessage_done r now st) = activeSessionId st \<or>
   crashed (sendMessage_done r now st)"
  by (simp add: sendMessage_done_def Let_def crash_def split: sum.splits data.splits)

lemma step_Resolve_send_reply:
  assumes "\<not> crashed st" and "k < length (pending st)" and "pending st ! k = PSend m a"
  shows "step (Resolve k (Inr \<lparr>status = code, payload = DObj obj\<rparr>) now) st =
           st\<lparr>messages := filter (\<lambda>m. \<not> isTyping m) (messages st) @
                 [\<lparr>msg_text = map_of obj ''reply'', sender = Bot, isTyping = False,
                   createdAt = Some now\<rparr>],
               pending := take k (pending st) @ drop (Suc k) (pending st)\<rparr>"
  using assms
  by (simp add: step_def complete_def fetch_effect_def sendMessage_done_def Let_def)

lemma step_Resolve_send_failed:
  assumes "\<not> crashed st" and "k < length (pending st)" and "pending st ! k = PSend m a"
  shows "step (Resolve k (Inl err) now) st =
           st\<lparr>messages := filter (\<lambda>m. \<not> isTyping m) (messages st) @
                 [\<lparr>msg_text = Some (js ''Error sending message''), sender = Bot,
                   isTyping = False, createdAt = Some now\<rparr>],
               pending := take k (pending st) @ drop (Suc k) (pending st)\<rparr>"
  using assms
  by (simp add: step_def complete_def fetch_effect_def sendMessage_done_def Let_def)

lemma run_SetInput:
  "\<not> crashed st \<Longrightarrow>
     run (map SetInput vs) st = (if vs = [] then st else st\<lparr>input := last vs\<rparr>)"
proof (induction vs arbitrary: st)
  case Nil
  then show ?case by (simp add: run_Nil)
next
  case (Cons v vs)
  have s: "step (SetInput v) st = st\<lparr>input := v\<rparr>"
    using Cons.prems by (simp add: step_def fetch_effect_def)
  have "\<not> crashed (st\<lparr>input := v\<rparr>)" using Cons.prems by simp
  from Cons.IH [OF this] show ?case
    by (simp add: run_Cons s)
qed

text \<open>
  C5 as stated fails. The reply is appended to the list as it is when the reply arrives:
  the user sends ``one'' and then ``two'' before the first reply is there, and the list
  ends in the user's ``two'' and the reply to ``one''.
\<close>

theorem second_send_before_reply:
  "pending (run (take 6 two_sends) mounted) =
     [PSend (js ''one'') (SStr (js ''A'')), PSend (js ''two'') (SStr (js ''A''))]
   \<and> messages (run two_sends mounted) =
       [\<lparr>msg_text = Some (js ''one''), sender = User, isTyping = False,
         createdAt = Some (js ''t2'')\<rparr>,
        \<lparr>msg_text = Some (js ''two''), sender = User, isTyping = False,
         createdAt = Some (js ''t3'')\<rparr>,
        \<lparr>msg_text = Some (js ''answer one''), sender = Bot, isTyping = False,
         createdAt = Some (js ''t4'')\<rparr>]
   \<and> drop 1 (messages (run two_sends mounted)) \<noteq>
       [\<lparr>msg_text = Some (js ''one''), sender = User, isTyping = False,
         createdAt = Some (js ''t2'')\<rparr>,
        \<lparr>msg_text = Some (js ''answer one''), sender = Bot, isTyping = False,
         createdAt = Some (js ''t4'')\<rparr>]"
  by (simp add: two_sends_def mounted_def chat_eval)

text \<open>
  C5 as amended. On a page that is up, with an input that is not blank and a truthy
  active id, sending appends the user's message (with the client's time) and one typing
  placeholder, clears the input and issues one request. When a send request in flight is
  answered with an object, all placeholders are removed from the list as it is then and
  the bot's message with the \<open>reply\<close> of the body is appended; when it is rejected, the
  error message is appended instead; in both cases no request is issued. If the user has
  done nothing but type between the send and the completion of its request, the list is
  the earlier messages without placeholders, the user's message and the reply (or the
  error message).
\<close>

theorem send_then_reply:
  assumes alive: "\<not> crashed st"
    and inp: "\<not> list_all is_space (input st)"
    and act: "active_truthy (activeSessionId st)"
  shows "step (Send now) st =
           st\<lparr>messages := messages st @
                 [\<lparr>msg_text = Some (input st), sender = User, isTyping = False,
                   createdAt = Some now\<rparr>, typing_placeholder],
               input := [],
               pending := pending st @ [PSend (input st) (the (activeSessionId st))],
               issued := issued st @ [PSend (input st) (the (activeSessionId st))]\<rparr>
       \<and> (\<forall>st' k m a. \<not> crashed st' \<and> k < length (pending st') \<and> pending st' ! k = PSend m a \<longrightarrow>
             step (Resolve k (Inr \<lparr>status = code, payload = DObj obj\<rparr>) later) st' =
               st'\<lparr>messages := filter (\<lambda>m. \<not> isTyping m) (messages st') @
                     [\<lparr>msg_text = map_of obj ''reply'', sender = Bot, isTyping = False,
                       createdAt = Some later\<rparr>],
                   pending := take k (pending st') @ drop (Suc k) (pending st')\<rparr>
             \<and> step (Resolve k (Inl err) later) st' =
               st'\<lparr>messages := filter (\<lambda>m. \<not> isTyping m) (messages st') @
                     [\<lparr>msg_text = Some (js ''Error sending message''), sender = Bot,
                       isTyping = False, createdAt = Some later\<rparr>],
                   pending := take k (pending st') @ drop (Suc k) (pending st')\<rparr>)
       \<and> (map_of obj ''reply'' = Some R \<longrightarrow>
             messages (step (Resolve (length (pending st))
                               (Inr \<lparr>status = code, payload = DObj obj\<rparr>) later)
                         (run (map SetInput vs) (step (Send now) st))) =
               filter (\<lambda>m. \<not> isTyping m) (messages st) @
                 [\<lparr>msg_text = Some (input st), sender = User, isTyping = False,
                   createdAt = Some now\<rparr>,
                  \<lparr>msg_text = Some R, sender = Bot, isTyping = False,
                   createdAt = Some later\<rparr>])
       \<and> messages (step (Resolve (length (pending st)) (Inl err) later)
                     (run (map SetInput vs) (step (Send now) st))) =
           filter (\<lambda>m. \<not> isTyping m) (messages st) @
             [\<lparr>msg_text = Some (input st), sender = User, isTyping = False,
               createdAt = Some now\<rparr>,
              \<lparr>msg_text = Some (js ''Error sending message''), sender = Bot,
               isTyping = False, createdAt = Some later\<rparr>]"
proof -
  let ?s1 = "step (Send now) st"
  let ?s2 = "run (map SetInput vs) ?s1"
  note s1 = step_Send [OF assms, of now]
  have c1: "\<not> crashed ?s1"
    using alive by (simp add: s1)
  have s2: "?s2 = (if vs = [] then ?s1 else ?s1\<lparr>input := last vs\<rparr>)"
    using c1 by (rule run_SetInput)
  have c2: "\<not> crashed ?s2"
    and k: "length (pending st) < length (pending ?s2)"
    and p: "pending ?s2 ! length (pending st) = PSend (input st) (the (activeSessionId st))"
    and m: "messages ?s2 = messages st @
                 [\<lparr>msg_text = Some (input st), sender = User, isTyping = False,
                   createdAt = Some now\<rparr>, typing_placeholder]"
    unfolding s2 using alive by (simp_all add: s1)
  have g: "\<forall>st' k m a. \<not> crashed st' \<and> k < length (pending st') \<and> pending st' ! k = PSend m a \<longrightarrow>
             step (Resolve k (Inr \<lparr>status = code, payload = DObj obj\<rparr>) later) st' =
               st'\<lparr>messages := filter (\<lambda>m. \<not> isTyping m) (messages st') @
                     [\<lparr>msg_text = map_of obj ''reply'', sender = Bot, isTyping = False,
                       createdAt = Some later\<rparr>],
                   pending := take k (pending st') @ drop (Suc k) (pending st')\<rparr>
             \<and> step (Resolve k (Inl err) later) st' =
               st'\<lparr>messages := filter (\<lambda>m. \<not> isTyping m) (messages st') @
                     [\<lparr>msg_text = Some (js ''Error sending message''), sender = Bot,
                       isTyping = False, createdAt = Some later\<rparr>],
                   pending := take k (pending st') @ drop (Suc k) (pending st')\<rparr>"
    using step_Resolve_send_reply step_Resolve_send_failed by blast
  have r: "map_of obj ''reply'' = Some R \<longrightarrow>
             messages (step (Resolve (length (pending st))
                               (Inr \<lparr>status = code, payload = DObj obj\<rparr>) later) ?s2) =
               filter (\<lambda>m. \<not> isTyping m) (messages st) @
                 [\<lparr>msg_text = Some (input st), sender = User, isTyping = False,
                   createdAt = Some now\<rparr>,
                  \<lparr>msg_text = Some R, sender = Bot, isTyping = False,
                   createdAt = Some later\<rparr>]"
    by (simp add: step_Resolve_send_reply [OF c2 k p] m typing_placeholder_def)
  have f: "messages (step (Resolve (length (pending st)) (Inl err) later) ?s2) =
           filter (\<lambda>m. \<not> isTyping m) (messages st) @
             [\<lparr>msg_text = Some (input st), sender = User, isTyping = False,
               createdAt = Some now\<rparr>,
              \<lparr>msg_text = Some (js ''Error sending message''), sender = Bot,
               isTyping = False, createdAt = Some later\<rparr>]"
    by (simp add: step_Resolve_send_failed [OF c2 k p] m typing_placeholder_def)
  from s1 g r f show ?thesis by blast
qed

theorem send_then_reply_witness:
  "\<not> crashed three_sessions
   \<and> \<not> list_all is_space (input three_sessions)
   \<and> active_truthy (activeSessionId three_sessions)
   \<and> map_of [(''reply'', js ''hi there'')] ''reply'' = Some (js ''hi there'')
   \<and> messages (step (Send (js ''t8'')) three_sessions) =
       [\<lparr>msg_text = Some (js ''question in A''), sender = User, isTyping = False,
         createdAt = Some (js ''2024-01-01T10:00:00.000Z'')\<rparr>,
        \<lparr>msg_text = Some (js ''answer in A''), sender = Bot, isTyping = False,
         createdAt = Some (js ''2024-01-01T10:00:00.000Z'')\<rparr>,
        \<lparr>msg_text = Some (js ''hello''), sender = User, isTyping = False,
         createdAt = Some (js ''t8'')\<rparr>,
        typing_placeholder]
   \<and> messages (step (Resolve 0 (Inr \<lparr>status = 200,
                                      payload = DObj [(''reply'', js ''hi there'')]\<rparr>) (js ''t9''))
                 (run (map SetInput [js ''n'', js ''ne'']) (step (Send (js ''t8'')) three_sessions))) =
       [\<lparr>msg_text = Some (js ''question in A''), sender = User, isTyping = False,
         createdAt = Some (js ''2024-01-01T10:00:00.000Z'')\<rparr>,
        \<lparr>msg_text = Some (js ''answer in A''), sender = Bot, isTyping = False,
         createdAt = Some (js ''2024-01-01T10:00:00.000Z'')\<rparr>,
        \<lparr>msg_text = Some (js ''hello''), sender = User, isTyping = False,
         createdAt = Some (js ''t8'')\<rparr>,
        \<lparr>msg_text = Some (js ''hi there''), sender = Bot, isTyping = False,
         createdAt = Some (js ''t9'')\<rparr>]
   \<and> messages (step (Resolve 0 (Inl (AxiosError (get_request ''/chat'') None)) (js ''t9''))
                 (run (map SetInput [js ''n'', js ''ne'']) (step (Send (js ''t8'')) three_sessions))) =
       [\<lparr>msg_text = Some (js ''question in A''), sender = User, isTyping = False,
         createdAt = Some (js ''2024-01-01T10:00:00.000Z'')\<rparr>,
        \<lparr>msg_text = Some (js ''answer in A''), sender = Bot, isTyping = False,
         createdAt = Some (js ''2024-01-01T10:00:00.000Z'')\<rparr>,
        \<lparr>msg_text = Some (js ''hello''), sender = User, isTyping = False,
         createdAt = Some (js ''t8'')\<rparr>,
        \<lparr>msg_text = Some (js ''Error sending message''), sender = Bot, isTyping = False,
         createdAt = Some (js ''t9'')\<rparr>]
   \<and> \<not> crashed (run (take 6 two_sends) mounted)
   \<and> 0 < length (pending (run (take 6 two_sends) mounted))
   \<and> pending (run (take 6 two_sends) mounted) ! 0 = PSend (js ''one'') (SStr (js ''A''))
   \<and> messages (step (Resolve 0 (Inr \<lparr>status = 200,
                                      payload = DObj [(''reply'', js ''hi there'')]\<rparr>) (js ''t9''))
                 (run (take 6 two_sends) mounted)) =
       [\<lparr>msg_text = Some (js ''one''), sender = User, isTyping = False,
         createdAt = Some (js ''t2'')\<rparr>,
        \<lparr>msg_text = Some (js ''two''), sender = User, isTyping = False,
         createdAt = Some (js ''t3'')\<rparr>,
        \<lparr>msg_text = Some (js ''hi there''), sender = Bot, isTyping = False,
         createdAt = Some (js ''t9'')\<rparr>]"
proof -
  have h1: "\<not> crashed three_sessions"
    and h2: "\<not> list_all is_space (input three_sessions)"
    and h3: "active_truthy (activeSessionId three_sessions)"
    and p: "length (pending three_sessions) = 0"
    by (simp_all add: three_sessions_eq is_space_def js_def)
  have h4: "map_of [(''reply'', js ''hi there'')] ''reply'' = Some (js ''hi there'')"
    by simp
  have q: "\<not> crashed (run (take 6 two_sends) mounted)
      \<and> 0 < length (pending (run (take 6 two_sends) mounted))
      \<and> pending (run (take 6 two_sends) mounted) ! 0 = PSend (js ''one'') (SStr (js ''A''))"
    and qm: "messages (run (take 6 two_sends) mounted) =
       [\<lparr>msg_text = Some (js ''one''), sender = User, isTyping = False,
         createdAt = Some (js ''t2'')\<rparr>,
        typing_placeholder,
        \<lparr>msg_text = Some (js ''two''), sender = User, isTyping = False,
         createdAt = Some (js ''t3'')\<rparr>,
        typing_placeholder]"
    by (simp_all add: two_sends_def mounted_def chat_eval)
  note t = send_then_reply [OF h1 h2 h3, of "js ''t8''" 200 "[(''reply'', js ''hi there'')]"
      "js ''t9''" "AxiosError (get_request ''/chat'') None" "js ''hi there''" "[js ''n'', js ''ne'']",
      unfolded p]
  from t have a: "messages (step (Send (js ''t8'')) three_sessions) =
      messages three_sessions @
        [\<lparr>msg_text = Some (input three_sessions), sender = User, isTyping = False,
          createdAt = Some (js ''t8'')\<rparr>, typing_placeholder]"
    by simp
  from t h4 have b: "messages (step (Resolve 0 (Inr \<lparr>status = 200,
                                      payload = DObj [(''reply'', js ''hi there'')]\<rparr>) (js ''t9''))
                 (run (map SetInput [js ''n'', js ''ne'']) (step (Send (js ''t8'')) three_sessions))) =
      filter (\<lambda>m. \<not> isTyping m) (messages three_sessions) @
        [\<lparr>msg_text = Some (input three_sessions), sender = User, isTyping = False,
          createdAt = Some (js ''t8'')\<rparr>,
         \<lparr>msg_text = Some (js ''hi there''), sender = Bot, isTyping = False,
          createdAt = Some (js ''t9'')\<rparr>]"
    by blast
  from t have c: "messages (step (Resolve 0 (Inl (AxiosError (get_request ''/chat'') None)) (js ''t9''))
                 (run (map SetInput [js ''n'', js ''ne'']) (step (Send (js ''t8'')) three_sessions))) =
      filter (\<lambda>m. \<not> isTyping m) (messages three_sessions) @
        [\<lparr>msg_text = Some (input three_sessions), sender = User, isTyping = False,
          createdAt = Some (js ''t8'')\<rparr>,
         \<lparr>msg_text = Some (js ''Error sending message''), sender = Bot, isTyping = False,
          createdAt = Some (js ''t9'')\<rparr>]"
    by blast
  from t q have d: "step (Resolve 0 (Inr \<lparr>status = 200,
                                      payload = DObj [(''reply'', js ''hi there'')]\<rparr>) (js ''t9''))
                 (run (take 6 two_sends) mounted) =
      (run (take 6 two_sends) mounted)
        \<lparr>messages := filter (\<lambda>m. \<not> isTyping m) (messages (run (take 6 two_sends) mounted)) @
            [\<lparr>msg_text = map_of [(''reply'', js ''hi there'')] ''reply'', sender = Bot,
              isTyping = False, createdAt = Some (js ''t9'')\<rparr>],
         pending := take 0 (pending (run (take 6 two_sends) mounted)) @
            drop (Suc 0) (pending (run (take 6 two_sends) mounted))\<rparr>"
    by blast
  have a': "messages (step (Send (js ''t8'')) three_sessions) =
       [\<lparr>msg_text = Some (js ''question in A''), sender = User, isTyping = False,
         createdAt = Some (js ''2024-01-01T10:00:00.000Z'')\<rparr>,
        \<lparr>msg_text = Some (js ''answer in A''), sender = Bot, isTyping = False,
         createdAt = Some (js ''2024-01-01T10:00:00.000Z'')\<rparr>,
        \<lparr>msg_text = Some (js ''hello''), sender = User, isTyping = False,
         createdAt = Some (js ''t8'')\<rparr>,
        typing_placeholder]"
    unfolding a by (simp add: three_sessions_eq)
  have b': "messages (step (Resolve 0 (Inr \<lparr>status = 200,
                                      payload = DObj [(''reply'', js ''hi there'')]\<rparr>) (js ''t9''))
                 (run (map SetInput [js ''n'', js ''ne'']) (step (Send (js ''t8'')) three_sessions))) =
       [\<lparr>msg_text = Some (js ''question in A''), sender = User, isTyping = False,
         createdAt = Some (js ''2024-01-01T10:00:00.000Z'')\<rparr>,
        \<lparr>msg_text = Some (js ''answer in A''), sender = Bot, isTyping = False,
         createdAt = Some (js ''2024-01-01T10:00:00.000Z'')\<rparr>,
        \<lparr>msg_text = Some (js ''hello''), sender = User, isTyping = False,
         createdAt = Some (js ''t8'')\<rparr>,
        \<lparr>msg_text = Some (js ''hi there''), sender = Bot, isTyping = False,
         createdAt = Some (js ''t9'')\<rparr>]"
    unfolding b by (simp add: three_sessions_eq)
  have c': "messages (step (Resolve 0 (Inl (AxiosError (get_request ''/chat'') None)) (js ''t9''))
                 (run (map SetInput [js ''n'', js ''ne'']) (step (Send (js ''t8'')) three_sessions))) =
       [\<lparr>msg_text = Some (js ''question in A''), sender = User, isTyping = False,
         createdAt = Some (js ''2024-01-01T10:00:00.000Z'')\<rparr>,
        \<lparr>msg_text = Some (js ''answer in A''), sender = Bot, isTyping = False,
         createdAt = Some (js ''2024-01-01T10:00:00.000Z'')\<rparr>,
        \<lparr>msg_text = Some (js ''hello''), sender = User, isTyping = False,
         createdAt = Some (js ''t8'')\<rparr>,
        \<lparr>msg_text = Some (js ''Error sending message''), sender = Bot, isTyping = False,
         createdAt = Some (js ''t9'')\<rparr>]"
    unfolding c by (simp add: three_sessions_eq)
  have d': "messages (step (Resolve 0 (Inr \<lparr>status = 200,
                                      payload = DObj [(''reply'', js ''hi there'')]\<rparr>) (js ''t9''))
                 (run (take 6 two_sends) mounted)) =
       [\<lparr>msg_text = Some (js ''one''), sender = User, isTyping = False,
         createdAt = Some (js ''t2'')\<rparr>,
        \<lparr>msg_text = Some (js ''two''), sender = User, isTyping = False,
         createdAt = Some (js ''t3'')\<rparr>,
        \<lparr>msg_text = Some (js ''hi there''), sender = Bot, isTyping = False,
         createdAt = Some (js ''t9'')\<rparr>]"
    unfolding d by (simp add: qm typing_placeholder_def)
  from h1 h2 h3 h4 a' b' c' q d' show ?thesis by blast
qed

subsection \<open>Typing placeholders\<close>












subsection \<open>Deleting a session\<close>

lemma step_ClickDelete:
  assumes "\<not> crashed st" and "i < length (sessions st)"
  shows "step (ClickDelete i True) st =
           issue (PDelete (sessions st ! i) (sessions st) (activeSessionId st)) st"
  using assms by (simp add: step_def deleteSession_def issue_def fetch_effect_def)

text \<open>
  Where the entry and the active id are the same value, the fallback works: the user
  deletes the entry at a position of the list and the request succeeds at once. Then the
  entry is gone; if it was the active id, the first remaining entry becomes active (its
  messages are cleared and its history requested), or none when no entry remains.
\<close>

lemma delete_falls_back_same_value:
  assumes c: "\<not> crashed st" and i: "i < length (sessions st)"
    and a: "activeSessionId st = Some (sessions st ! i)"
  shows "sessions (step (Resolve (length (pending st)) (Inr res) now)
                    (step (ClickDelete i True) st))
           = filter (\<lambda>s. s \<noteq> sessions st ! i) (sessions st)
       \<and> (case filter (\<lambda>s. s \<noteq> sessions st ! i) (sessions st) of
             [] \<Rightarrow>
               activeSessionId (step (Resolve (length (pending st)) (Inr res) now)
                  (step (ClickDelete i True) st)) = None
               \<and> messages (step (Resolve (length (pending st)) (Inr res) now)
                  (step (ClickDelete i True) st)) = []
           | s # rest \<Rightarrow>
               activeSessionId (step (Resolve (length (pending st)) (Inr res) now)
                  (step (ClickDelete i True) st)) = Some s
               \<and> (active_truthy (Some s) \<longrightarrow>
                    messages (step (Resolve (length (pending st)) (Inr res) now)
                       (step (ClickDelete i True) st)) = []
                    \<and> pending (step (Resolve (length (pending st)) (Inr res) now)
                       (step (ClickDelete i True) st)) = pending st @ [PFetch s]))"
proof -
  let ?sid = "sessions st ! i"
  let ?s1 = "step (ClickDelete i True) st"
  let ?rem = "filter (\<lambda>s. s \<noteq> ?sid) (sessions st)"
  have s1: "?s1 = issue (PDelete ?sid (sessions st) (activeSessionId st)) st"
    using c i by (rule step_ClickDelete)
  have c1: "\<not> crashed ?s1"
    using c by (simp add: s1 issue_def)
  have h: "handle_event (Resolve (length (pending st)) (Inr res) now) ?s1 =
             deleteSession_done ?sid (sessions st) (activeSessionId st) (Inr res)
               (?s1\<lparr>pending := pending st\<rparr>)"
    by (simp add: s1 issue_def complete_def)
  have s2: "step (Resolve (length (pending st)) (Inr res) now) ?s1 =
              fetch_effect ?s1
                (deleteSession_done ?sid (sessions st) (activeSessionId st) (Inr res)
                   (?s1\<lparr>pending := pending st\<rparr>))"
    by (subst step_alive [OF c1]) (simp only: h)
  show ?thesis
  proof (cases ?rem)
    case Nil
    then show ?thesis
      unfolding s2 using a
      by (simp add: deleteSession_done_def Let_def fetch_effect_def s1 issue_def)
  next
    case (Cons s rest)
    then have "s \<in> set ?rem" by simp
    then have "s \<noteq> ?sid" by simp
    then show ?thesis
      unfolding s2 using a Cons
      by (simp add: deleteSession_done_def Let_def fetch_effect_def s1 issue_def)
  qed
qed

text \<open>
  C3, at the input where it fails. After ``New chat'' the list holds the object the
  backend has sent and the active id is the string \<open>id\<close> of that object. The user
  deletes the entry of the new, active session and the backend confirms: the entry is
  gone from the list, but \<open>activeSessionId === sessionId\<close> compares the string with the
  object, so nothing falls back and the deleted session stays active.
\<close>

theorem deleted_new_chat_stays_active:
  "sessions (run (take 5 new_chat_then_delete) mounted) =
     [SObj 2 [(''id'', js ''N''), (''createdAt'', js ''2024-01-03T10:00:00.000Z'')],
      SStr (js ''A''), SStr (js ''B'')]
   \<and> activeSessionId (run (take 5 new_chat_then_delete) mounted) = Some (SStr (js ''N''))
   \<and> sessions (run new_chat_then_delete mounted) = [SStr (js ''A''), SStr (js ''B'')]
   \<and> activeSessionId (run new_chat_then_delete mounted) = Some (SStr (js ''N''))
   \<and> pending (run new_chat_then_delete mounted) = []
   \<and> \<not> crashed (run new_chat_then_delete mounted)"
  by (simp add: new_chat_then_delete_def mounted_def chat_eval)

subsection \<open>Switching the session\<close>

lemma complete_crashed:
  "\<not> crashed st \<Longrightarrow> crashed (complete p r now st) \<Longrightarrow>
     activeSessionId (complete p r now st) = None"
  by (cases p)
     (auto simp: complete_def initAuth_done_def fetchChat_done_def sendMessage_done_def
        deleteSession_done_def createNewSession_done_def crash_def Let_def
        split: sum.splits data.splits option.splits if_splits)

lemma handle_event_crashed:
  assumes "\<not> crashed st" and "crashed (handle_event e st)"
  shows "activeSessionId (handle_event e st) = None"
proof (cases e)
  case (Resolve k r now)
  then show ?thesis using assms
    by (auto intro!: complete_crashed split: if_splits)
qed (use assms in \<open>auto simp: select_session_def deleteSession_def createNewSession_def
       sendMessage_def issue_def Let_def split: if_splits\<close>)

lemma complete_no_fetch:
  "issued (complete p r now st) = issued st"
  by (cases p)
     (auto simp: complete_def initAuth_done_def fetchChat_done_def sendMessage_done_def
        deleteSession_done_def createNewSession_done_def crash_def Let_def
        split: sum.splits data.splits option.splits)

lemma handle_event_no_fetch:
  "filter is_PFetch (issued (handle_event e st)) = filter is_PFetch (issued st)"
  by (cases e)
     (auto simp: select_session_def deleteSession_def createNewSession_def sendMessage_def
        issue_def Let_def complete_no_fetch)

lemma step_Resolve_fetch:
  assumes "\<not> crashed st" and "k < length (pending st)" and "pending st ! k = PFetch a"
    and "flatten items = Some history"
  shows "messages (step (Resolve k (Inr \<lparr>status = code, payload = DArr items\<rparr>) now) st)
           = history
       \<and> activeSessionId (step (Resolve k (Inr \<lparr>status = code, payload = DArr items\<rparr>) now) st)
           = activeSessionId st
       \<and> pending (step (Resolve k (Inr \<lparr>status = code, payload = DArr items\<rparr>) now) st)
           = take k (pending st) @ drop (Suc k) (pending st)"
proof -
  let ?st = "st\<lparr>pending := take k (pending st) @ drop (Suc k) (pending st)\<rparr>"
  let ?done = "fetchChat_done a (Inr \<lparr>status = code, payload = DArr items\<rparr>) ?st"
  have d: "messages ?done = history \<and> activeSessionId ?done = activeSessionId st
      \<and> pending ?done = take k (pending st) @ drop (Suc k) (pending st)"
    using assms(4) by (simp add: fetchChat_done_def Let_def)
  have "step (Resolve k (Inr \<lparr>status = code, payload = DArr items\<rparr>) now) st =
          fetch_effect st ?done"
    using assms(1,2,3) by (simp add: step_def complete_def)
  also have "\<dots> = ?done"
    using d by (intro fetch_effect_same) simp
  finally show ?thesis using d by simp
qed

text \<open>
  C4 as stated fails. The page does not cancel a request when the session is switched:
  the user switches from A to B, the history of B arrives and is shown, then the history
  requested earlier for A arrives and replaces it. The state reached has B active,
  nothing in flight, and the messages of A on display.
\<close>

theorem late_response_shows_other_session:
  "pending (run (take 2 late_response) mounted) =
     [PFetch (SStr (js ''A'')), PFetch (SStr (js ''B''))]
   \<and> activeSessionId (run late_response mounted) = Some (SStr (js ''B''))
   \<and> pending (run late_response mounted) = []
   \<and> flatten history_A = Some (messages (run late_response mounted))
   \<and> flatten history_B \<noteq> Some (messages (run late_response mounted))
   \<and> messages (run late_response mounted) \<noteq> []"
  by (simp add: late_response_def mounted_def history_A_def history_B_def chat_eval)

text \<open>
  C4 as amended. The page holds one active id, and every event starts at most one
  history request, for the id that is active after it. Every event that changes the
  active id to a truthy one (a click on another entry, the fallback after a delete, a
  new chat, the first load) clears the messages at once and requests the history of that
  id; when that request is the next to complete, with an array without a \<open>null\<close>
  record, the flattened records are shown and the id is still active. The completion of
  any history request in flight, with such an array, replaces the messages with its
  flattened records and leaves the active id as it is, whichever id the request was
  issued for.
\<close>

theorem switch_clears_and_fetches:
  "(activeSessionId (step e st) = Some a \<and> activeSessionId (step e st) \<noteq> activeSessionId st
      \<and> active_truthy (Some a) \<longrightarrow>
        messages (step e st) = []
        \<and> pending (step e st) = pending (handle_event e st) @ [PFetch a]
        \<and> (flatten items = Some history \<longrightarrow>
             messages (step (Resolve (length (pending (handle_event e st)))
                               (Inr \<lparr>status = code, payload = DArr items\<rparr>) now)
                         (step e st)) = history
             \<and> activeSessionId (step (Resolve (length (pending (handle_event e st)))
                               (Inr \<lparr>status = code, payload = DArr items\<rparr>) now)
                         (step e st)) = Some a))
   \<and> (filter is_PFetch (issued (step e st)) = filter is_PFetch (issued st)
        \<or> (\<exists>b. activeSessionId (step e st) = Some b
              \<and> filter is_PFetch (issued (step e st)) = filter is_PFetch (issued st) @ [PFetch b]))
   \<and> (\<not> crashed st \<and> k < length (pending st) \<and> pending st ! k = PFetch b
      \<and> flatten items = Some history \<longrightarrow>
        messages (step (Resolve k (Inr \<lparr>status = code, payload = DArr items\<rparr>) now) st)
          = history
        \<and> activeSessionId (step (Resolve k (Inr \<lparr>status = code, payload = DArr items\<rparr>) now) st)
          = activeSessionId st)"
proof (intro conjI impI)
  assume sw: "activeSessionId (step e st) = Some a
      \<and> activeSessionId (step e st) \<noteq> activeSessionId st \<and> active_truthy (Some a)"
  then have alive: "\<not> crashed st"
    by (auto simp: step_def)
  let ?h = "handle_event e st"
  have s: "step e st = fetch_effect st ?h"
    using alive by (rule step_alive)
  have ha: "activeSessionId ?h = Some a"
    using sw unfolding s by (auto simp: fetch_effect_def issue_def split: if_splits)
  have s': "step e st = issue (PFetch a) (?h\<lparr>messages := []\<rparr>)"
    using sw ha unfolding s by (auto simp: fetch_effect_def split: if_splits)
  show m: "messages (step e st) = []"
    and p: "pending (step e st) = pending ?h @ [PFetch a]"
    by (simp_all add: s' issue_def)
  have c: "\<not> crashed (step e st)"
    using handle_event_crashed [OF alive, of e] ha by (auto simp: s' issue_def)
  {
    assume fl: "flatten items = Some history"
    have k: "length (pending ?h) < length (pending (step e st))"
      and q: "pending (step e st) ! length (pending ?h) = PFetch a"
      by (simp_all add: p)
    note r = step_Resolve_fetch [OF c k q fl, of code now]
    show "messages (step (Resolve (length (pending ?h))
                               (Inr \<lparr>status = code, payload = DArr items\<rparr>) now)
                         (step e st)) = history"
      using r by simp
    show "activeSessionId (step (Resolve (length (pending ?h))
                               (Inr \<lparr>status = code, payload = DArr items\<rparr>) now)
                         (step e st)) = Some a"
      using r sw by simp
  }
next
  show "filter is_PFetch (issued (step e st)) = filter is_PFetch (issued st)
        \<or> (\<exists>b. activeSessionId (step e st) = Some b
              \<and> filter is_PFetch (issued (step e st)) = filter is_PFetch (issued st) @ [PFetch b])"
  proof (cases "crashed st")
    case True
    then show ?thesis by (simp add: step_crashed)
  next
    case False
    let ?h = "handle_event e st"
    have s: "step e st = fetch_effect st ?h"
      using False by (rule step_alive)
    show ?thesis
    proof (cases "fetch_effect st ?h = ?h")
      case True
      then show ?thesis by (simp add: s handle_event_no_fetch)
    next
      case False
      then obtain b where b: "activeSessionId ?h = Some b"
        and f: "fetch_effect st ?h = issue (PFetch b) (?h\<lparr>messages := []\<rparr>)"
        by (cases "activeSessionId ?h") (auto simp: fetch_effect_def split: if_splits)
      have "activeSessionId (step e st) = Some b"
        by (simp add: s f issue_def b)
      moreover have "filter is_PFetch (issued (step e st)) =
          filter is_PFetch (issued st) @ [PFetch b]"
        by (simp add: s f issue_def handle_event_no_fetch)
      ultimately show ?thesis by blast
    qed
  qed
next
  assume a: "\<not> crashed st \<and> k < length (pending st) \<and> pending st ! k = PFetch b
      \<and> flatten items = Some history"
  then have r: "messages (step (Resolve k (Inr \<lparr>status = code, payload = DArr items\<rparr>) now) st)
           = history
       \<and> activeSessionId (step (Resolve k (Inr \<lparr>status = code, payload = DArr items\<rparr>) now) st)
           = activeSessionId st"
    using step_Resolve_fetch [of st k b items history code now] by blast
  show "messages (step (Resolve k (Inr \<lparr>status = code, payload = DArr items\<rparr>) now) st)
          = history"
    using r by simp
  show "activeSessionId (step (Resolve k (Inr \<lparr>status = code, payload = DArr items\<rparr>) now) st)
          = activeSessionId st"
    using r by simp
qed

theorem switch_clears_and_fetches_witness:
  "activeSessionId (step (ClickSession 1) three_sessions) = Some (SStr (js ''B''))
   \<and> activeSessionId (step (ClickSession 1) three_sessions) \<noteq> activeSessionId three_sessions
   \<and> active_truthy (Some (SStr (js ''B'')))
   \<and> flatten history_B =
       Some [\<lparr>msg_text = Some (js ''question in B''), sender = User, isTyping = False,
               createdAt = Some (js ''2024-01-02T10:00:00.000Z'')\<rparr>,
             \<lparr>msg_text = Some (js ''answer in B''), sender = Bot, isTyping = False,
               createdAt = Some (js ''2024-01-02T10:00:00.000Z'')\<rparr>]
   \<and> messages (step (ClickSession 1) three_sessions) = []
   \<and> pending (step (ClickSession 1) three_sessions) = [PFetch (SStr (js ''B''))]
   \<and> messages (step (Resolve 0 (Inr \<lparr>status = 200, payload = DArr history_B\<rparr>) (js ''t9''))
                 (step (ClickSession 1) three_sessions)) =
       [\<lparr>msg_text = Some (js ''question in B''), sender = User, isTyping = False,
         createdAt = Some (js ''2024-01-02T10:00:00.000Z'')\<rparr>,
        \<lparr>msg_text = Some (js ''answer in B''), sender = Bot, isTyping = False,
         createdAt = Some (js ''2024-01-02T10:00:00.000Z'')\<rparr>]
   \<and> activeSessionId (step (Resolve 0 (Inr \<lparr>status = 200, payload = DArr history_B\<rparr>) (js ''t9''))
                 (step (ClickSession 1) three_sessions)) = Some (SStr (js ''B''))
   \<and> activeSessionId (step (Resolve 0 (ok DNull) (js ''t5''))
                         (step (ClickDelete 0 True) three_sessions)) = Some (SStr (js ''B''))
   \<and> activeSessionId (step (ClickDelete 0 True) three_sessions) = Some (SStr (js ''A''))
   \<and> messages (step (Resolve 0 (ok DNull) (js ''t5''))
                  (step (ClickDelete 0 True) three_sessions)) = []
   \<and> pending (step (Resolve 0 (ok DNull) (js ''t5''))
                 (step (ClickDelete 0 True) three_sessions)) = [PFetch (SStr (js ''B''))]
   \<and> \<not> crashed (run (take 3 late_response) mounted)
   \<and> 0 < length (pending (run (take 3 late_response) mounted))
   \<and> pending (run (take 3 late_response) mounted) ! 0 = PFetch (SStr (js ''A''))
   \<and> activeSessionId (run (take 3 late_response) mounted) = Some (SStr (js ''B''))
   \<and> flatten history_A =
       Some [\<lparr>msg_text = Some (js ''question in A''), sender = User, isTyping = False,
               createdAt = Some (js ''2024-01-01T10:00:00.000Z'')\<rparr>,
             \<lparr>msg_text = Some (js ''answer in A''), sender = Bot, isTyping = False,
               createdAt = Some (js ''2024-01-01T10:00:00.000Z'')\<rparr>]
   \<and> messages (step (Resolve 0 (Inr \<lparr>status = 200, payload = DArr history_A\<rparr>) (js ''t9''))
                 (run (take 3 late_response) mounted)) =
       [\<lparr>msg_text = Some (js ''question in A''), sender = User, isTyping = False,
         createdAt = Some (js ''2024-01-01T10:00:00.000Z'')\<rparr>,
        \<lparr>msg_text = Some (js ''answer in A''), sender = Bot, isTyping = False,
         createdAt = Some (js ''2024-01-01T10:00:00.000Z'')\<rparr>]
   \<and> activeSessionId (step (Resolve 0 (Inr \<lparr>status = 200, payload = DArr history_A\<rparr>) (js ''t9''))
                 (run (take 3 late_response) mounted)) = Some (SStr (js ''B''))"
proof -
  let ?hA = "[\<lparr>msg_text = Some (js ''question in A''), sender = User, isTyping = False,
               createdAt = Some (js ''2024-01-01T10:00:00.000Z'')\<rparr>,
             \<lparr>msg_text = Some (js ''answer in A''), sender = Bot, isTyping = False,
               createdAt = Some (js ''2024-01-01T10:00:00.000Z'')\<rparr>]"
  let ?hB = "[\<lparr>msg_text = Some (js ''question in B''), sender = User, isTyping = False,
               createdAt = Some (js ''2024-01-02T10:00:00.000Z'')\<rparr>,
             \<lparr>msg_text = Some (js ''answer in B''), sender = Bot, isTyping = False,
               createdAt = Some (js ''2024-01-02T10:00:00.000Z'')\<rparr>]"
  let ?del = "step (ClickDelete 0 True) three_sessions"
  let ?late = "run (take 3 late_response) mounted"
  have fA: "flatten history_A = Some ?hA"
    by (simp add: history_A_def flatten_def truthy_def js_def)
  have fB: "flatten history_B = Some ?hB"
    by (simp add: history_B_def flatten_def truthy_def js_def)
  have tr: "active_truthy (Some (SStr (js ''B'')))"
    by (simp add: js_def)
  have c1: "activeSessionId (step (ClickSession 1) three_sessions) = Some (SStr (js ''B''))"
    and c2: "activeSessionId (step (ClickSession 1) three_sessions)
               \<noteq> activeSessionId three_sessions"
    and c3: "pending (handle_event (ClickSession 1) three_sessions) = []"
    by (simp_all add: three_sessions_eq chat_eval)
  have d0: "activeSessionId ?del = Some (SStr (js ''A''))"
    and d1: "activeSessionId (step (Resolve 0 (ok DNull) (js ''t5'')) ?del)
               = Some (SStr (js ''B''))"
    and d3: "pending (handle_event (Resolve 0 (ok DNull) (js ''t5'')) ?del) = []"
    by (simp_all add: three_sessions_eq chat_eval)
  have d2: "activeSessionId (step (Resolve 0 (ok DNull) (js ''t5'')) ?del)
              \<noteq> activeSessionId ?del"
    unfolding d0 d1 by (simp add: js_def)
  have l1: "\<not> crashed ?late"
    and l2: "0 < length (pending ?late)"
    and l3: "pending ?late ! 0 = PFetch (SStr (js ''A''))"
    and l4: "activeSessionId ?late = Some (SStr (js ''B''))"
    by (simp_all add: late_response_def mounted_def history_B_def chat_eval)
  note t1 = switch_clears_and_fetches
    [of "ClickSession 1" three_sessions "SStr (js ''B'')" history_B ?hB 200 "js ''t9''"
        0 "SStr (js ''A'')", unfolded c3 list.size append_Nil]
  note t2 = switch_clears_and_fetches
    [of "Resolve 0 (ok DNull) (js ''t5'')" ?del "SStr (js ''B'')" history_B ?hB 200 "js ''t9''"
        0 "SStr (js ''A'')", unfolded d3 list.size append_Nil]
  note t3 = switch_clears_and_fetches
    [of "ClickSession 1" ?late "SStr (js ''B'')" history_A ?hA 200 "js ''t9''"
        0 "SStr (js ''A'')"]
  from t1 c1 c2 tr fB have
    "messages (step (ClickSession 1) three_sessions) = []"
    and "pending (step (ClickSession 1) three_sessions) = [PFetch (SStr (js ''B''))]"
    and "messages (step (Resolve 0 (Inr \<lparr>status = 200, payload = DArr history_B\<rparr>) (js ''t9''))
                 (step (ClickSession 1) three_sessions)) = ?hB"
    and "activeSessionId (step (Resolve 0 (Inr \<lparr>status = 200, payload = DArr history_B\<rparr>)
                 (js ''t9'')) (step (ClickSession 1) three_sessions)) = Some (SStr (js ''B''))"
    by blast+
  moreover from t2 d1 d2 tr have
    "messages (step (Resolve 0 (ok DNull) (js ''t5'')) ?del) = []"
    and "pending (step (Resolve 0 (ok DNull) (js ''t5'')) ?del) = [PFetch (SStr (js ''B''))]"
    by blast+
  moreover from t3 l1 l2 l3 l4 fA have
    "messages (step (Resolve 0 (Inr \<lparr>status = 200, payload = DArr history_A\<rparr>) (js ''t9''))
                 ?late) = ?hA"
    and "activeSessionId (step (Resolve 0 (Inr \<lparr>status = 200, payload = DArr history_A\<rparr>)
                 (js ''t9'')) ?late) = Some (SStr (js ''B''))"
    by metis+
  ultimately show ?thesis using c1 c2 tr fA fB d0 d1 l1 l2 l3 l4 by blast
qed

subsection \<open>The order of the history\<close>

text \<open>
  C2, at the input where the session page fails it. \<open>fetchChat\<close> of Chat.tsx flattens
  the records (the user's message first) and shows them as they came: for records of the
  third, the first and the second day, the list is in that order. The page never sorts.
\<close>

theorem history_shown_in_response_order:
  "messages (fetchChat_done a (ok (DArr unordered_history)) st) =
     [\<lparr>msg_text = Some (js ''third''), sender = User, isTyping = False,
       createdAt = Some (js ''2024-01-03T00:00:00.000Z'')\<rparr>,
      \<lparr>msg_text = Some (js ''first''), sender = User, isTyping = False,
       createdAt = Some (js ''2024-01-01T00:00:00.000Z'')\<rparr>,
      \<lparr>msg_text = Some (js ''second''), sender = User, isTyping = False,
       createdAt = Some (js ''2024-01-02T00:00:00.000Z'')\<rparr>]"
  by (simp add: fetchChat_done_def ok_def unordered_history_def flatten_def truthy_def Let_def
        js_def)

end
